theory Spec2Isabelle
  imports Main
begin

section \<open>Strings and paths\<close>

text \<open>
  JavaScript strings are modelled as \<^typ>\<open>string\<close>, one list element per code unit.
  \<open>split_on c s\<close> is \<^verbatim>\<open>s.split(c)\<close> for a one-character separator (it always
  returns at least one segment) and \<open>join_with sep xs\<close> is \<^verbatim>\<open>xs.join(sep)\<close>.
\<close>

fun split_on :: "char \<Rightarrow> string \<Rightarrow> string list" where
  "split_on c [] = [[]]"
| "split_on c (x # xs) =
     (if x = c then [] # split_on c xs
      else (case split_on c xs of
              [] \<Rightarrow> [[x]]
            | s # ss \<Rightarrow> (x # s) # ss))"

fun join_with :: "string \<Rightarrow> string list \<Rightarrow> string" where
  "join_with sep [] = []"
| "join_with sep [s] = s"
| "join_with sep (s # t # ts) = s @ sep @ join_with sep (t # ts)"

text \<open>
  \<^verbatim>\<open>path.join\<close> of Node.js (POSIX flavour), on path segments: the arguments are glued
  with \<open>/\<close> and the result is normalised, which drops empty and \<open>.\<close> segments and resolves
  \<open>..\<close> against the segment before it. \<open>normalizeString\<close> keeps the resolved segments
  in \<open>res\<close>, last one first.
\<close>

fun normalizeString :: "bool \<Rightarrow> string list \<Rightarrow> string list \<Rightarrow> string list" where
  "normalizeString allowAboveRoot res [] = rev res"
| "normalizeString allowAboveRoot res (s # ss) =
     (if s = [] \<or> s = ''.'' then normalizeString allowAboveRoot res ss
      else if s = ''..'' then
        (case res of
           [] \<Rightarrow> normalizeString allowAboveRoot (if allowAboveRoot then [''..''] else []) ss
         | r # rs \<Rightarrow>
             if r = ''..''
             then normalizeString allowAboveRoot ((if allowAboveRoot then [''..''] else []) @ res) ss
             else normalizeString allowAboveRoot rs ss)
      else normalizeString allowAboveRoot (s # res) ss)"

definition normalize :: "string \<Rightarrow> string" where
  "normalize path =
     (if path = [] then ''.''
      else
        let isAbsolute = (hd path = CHR ''/'');
            trailingSeparator = (last path = CHR ''/'');
            p = join_with ''/'' (normalizeString (\<not> isAbsolute) [] (split_on CHR ''/'' path))
        in if p = [] then (if isAbsolute then ''/'' else if trailingSeparator then ''./'' else ''.'')
           else (if isAbsolute then ''/'' else []) @ p @ (if trailingSeparator then ''/'' else []))"

definition path_join :: "string \<Rightarrow> string \<Rightarrow> string" where
  "path_join a b =
     (if a = [] \<and> b = [] then ''.''
      else normalize (if a = [] then b else if b = [] then a else a @ ''/'' @ b))"

text \<open>
  \<^verbatim>\<open>DIST_DIR = join(PROJECT_ROOT, 'dist')\<close>. The project root is computed from the
  location of the script, so it is a parameter \<open>root\<close> of everything that touches a path.
\<close>

definition DIST_DIR :: "string \<Rightarrow> string" where
  "DIST_DIR root = path_join root ''dist''"

section \<open>Configuration\<close>

text \<open>
  The \<^verbatim>\<open>Config\<close> typedef of the script. \<^verbatim>\<open>exclude_from_sitemap\<close> is optional,
  and \<^verbatim>\<open>playwright\<close> and its two fields are read through \<^verbatim>\<open>?.\<close>, so each of them
  may be absent (\<open>None\<close>). The settings come from \<^verbatim>\<open>config.yaml\<close>, the routes from
  \<^verbatim>\<open>routes.yaml\<close>.
\<close>

record playwright_settings =
  headless :: "bool option"
  concurrency :: "int option"

record settings =
  production_url :: string
  preview_port :: nat
  default_locale :: string
  default_theme :: string
  locales :: "string list"
  themes :: "string list"
  exclude_from_sitemap :: "string list option"
  playwright :: "playwright_settings option"
  page_load_timeout :: nat
  wait_for_ready_timeout :: nat
  network_idle_timeout :: nat
  additional_wait :: nat

record Config = settings +
  routes :: "string list"

section \<open>Output path of a render task\<close>

text \<open>\<^verbatim>\<open>route.replace(/^\//, '')\<close>: one leading slash is removed when there is one.\<close>

fun replace_leading_slash :: "string \<Rightarrow> string" where
  "replace_leading_slash [] = []"
| "replace_leading_slash (c # cs) = (if c = CHR ''/'' then cs else c # cs)"

definition outputFile :: "string \<Rightarrow> string" where
  "outputFile route =
     (if route = ''/'' then ''index'' else replace_leading_slash route @ ''/index'')"

definition themeSuffix :: "'a Config_scheme \<Rightarrow> string \<Rightarrow> string" where
  "themeSuffix config theme = (if theme = default_theme config then [] else ''.'' @ theme)"

definition localeSuffix :: "'a Config_scheme \<Rightarrow> string \<Rightarrow> string" where
  "localeSuffix config locale = (if locale = default_locale config then [] else ''.'' @ locale)"

definition relativePath :: "'a Config_scheme \<Rightarrow> string \<Rightarrow> string \<Rightarrow> string \<Rightarrow> string" where
  "relativePath config route locale theme =
     outputFile route @ themeSuffix config theme @ localeSuffix config locale @ ''.html''"

definition outputPath :: "string \<Rightarrow> 'a Config_scheme \<Rightarrow> string \<Rightarrow> string \<Rightarrow> string \<Rightarrow> string" where
  "outputPath root config route locale theme =
     path_join (DIST_DIR root) (relativePath config route locale theme)"

text \<open>
  The derivation as the specification words it, for comparison with the code: the base
  segment, the two suffixes with their defaults \<open>l0\<close> and \<open>t0\<close>, and the file name joined
  under the output root.
\<close>

definition spec_base :: "string \<Rightarrow> string" where
  "spec_base r =
     (if r = ''/'' then ''index''
      else (if take 1 r = ''/'' then drop 1 r else r) @ ''/'' @ ''index'')"

definition spec_suffix :: "string \<Rightarrow> string \<Rightarrow> string" where
  "spec_suffix x x0 = (if x = x0 then '''' else CHR ''.'' # x)"

definition spec_relative_path :: "string \<Rightarrow> string \<Rightarrow> string \<Rightarrow> string \<Rightarrow> string \<Rightarrow> string" where
  "spec_relative_path l0 t0 r l t =
     concat [spec_base r, spec_suffix t t0, spec_suffix l l0, ''.html'']"

definition spec_output_path :: "string \<Rightarrow> string \<Rightarrow> string \<Rightarrow> string \<Rightarrow> string \<Rightarrow> string \<Rightarrow> string" where
  "spec_output_path root l0 t0 r l t = path_join (DIST_DIR root) (spec_relative_path l0 t0 r l t)"

section \<open>The render tasks\<close>

text \<open>The three nested loops of \<^verbatim>\<open>prerenderAll\<close>: route-major, then locale, then theme.\<close>

definition tasks :: "'a Config_scheme \<Rightarrow> (string \<times> string \<times> string) list" where
  "tasks config =
     concat (map (\<lambda>route.
       concat (map (\<lambda>locale.
         map (\<lambda>theme. (route, locale, theme)) (themes config)) (locales config))) (routes config))"

section \<open>Text replacement\<close>

text \<open>
  \<^verbatim>\<open>String.prototype.replace\<close> with a string pattern: only the first occurrence is
  replaced, and the replacement text is expanded by \<open>GetSubstitution\<close> first. With a string
  pattern there are no capture groups, so the patterns that expand are \<open>$$\<close> (a dollar
  sign), \<open>$&\<close> (the matched text), \<open>$`\<close> (the text before the match) and \<open>$'\<close> (the text
  after it); every other character, \<open>$\<close> included, stands for itself.
\<close>

fun find_first :: "string \<Rightarrow> string \<Rightarrow> (string \<times> string) option" where
  "find_first pat [] = (if pat = [] then Some ([], []) else None)"
| "find_first pat (c # cs) =
     (if take (length pat) (c # cs) = pat then Some ([], drop (length pat) (c # cs))
      else map_option (\<lambda>(preceding, following). (c # preceding, following)) (find_first pat cs))"

fun getSubstitution :: "string \<Rightarrow> string \<Rightarrow> string \<Rightarrow> string \<Rightarrow> string" where
  "getSubstitution matched preceding following (c # d # rest) =
     (if c = CHR ''$'' \<and> d = CHR ''$'' then CHR ''$'' # getSubstitution matched preceding following rest
      else if c = CHR ''$'' \<and> d = CHR ''&'' then matched @ getSubstitution matched preceding following rest
      else if c = CHR ''$'' \<and> d = CHR 0x60 then preceding @ getSubstitution matched preceding following rest
      else if c = CHR ''$'' \<and> d = CHR 0x27 then following @ getSubstitution matched preceding following rest
      else c # getSubstitution matched preceding following (d # rest))"
| "getSubstitution matched preceding following template = template"

definition js_replace :: "string \<Rightarrow> string \<Rightarrow> string \<Rightarrow> string" where
  "js_replace s pat replacement =
     (case find_first pat s of
        None \<Rightarrow> s
      | Some (preceding, following) \<Rightarrow> preceding @ getSubstitution pat preceding following replacement @ following)"

definition js_includes :: "string \<Rightarrow> string \<Rightarrow> bool" where
  "js_includes s pat = (find_first pat s \<noteq> None)"

definition endsWith :: "string \<Rightarrow> string \<Rightarrow> bool" where
  "endsWith s sfx = (length sfx \<le> length s \<and> drop (length s - length sfx) s = sfx)"

section \<open>Rendering one task\<close>

text \<open>
  What the script cannot decide by itself is an input of the model. A failing call raises
  an \<open>error\<close>; \<open>Rejected\<close> stands for any rejection of a browser, process, formatter or file
  system call.
\<close>

datatype error = ENOENT string | YAMLException | TypeError | Rejected

type_synonym fs = "string \<rightharpoonup> string"

type_synonym task = "string \<times> string \<times> string"

record response =
  url :: string
  ok :: bool

text \<open>
  One browser page during one task: the outcome of each awaited call of
  \<^verbatim>\<open>prerenderRoute\<close> (\<open>None\<close> when it returns, \<open>Some e\<close> when it throws), the responses
  the page has delivered to the observer by the time the document is captured, the
  captured document, the formatter, and the outcome of creating the directory and
  writing the file.
\<close>

record page_env =
  page_goto :: "string \<Rightarrow> error option"
  page_waitForFunction :: "error option"
  page_waitForLoadState :: "error option"
  page_waitForTimeout :: "error option"
  page_responses :: "response list"
  page_content :: "error + string"
  prettier_format :: "string \<Rightarrow> error + string"
  write_outcome :: "error option"

definition renderUrl :: "'a Config_scheme \<Rightarrow> string \<Rightarrow> string \<Rightarrow> string \<Rightarrow> string" where
  "renderUrl config route locale theme =
     production_url config @ route @ ''?__prerendering=true&locale='' @ locale @
     ''&theme='' @ theme"

text \<open>
  The response observer. The two sets \<^verbatim>\<open>resources.css\<close> and \<^verbatim>\<open>resources.js\<close> are
  lists without repetition, in insertion order, as a JavaScript \<^verbatim>\<open>Set\<close> iterates.
\<close>

definition set_add :: "string \<Rightarrow> string list \<Rightarrow> string list" where
  "set_add x xs = (if x \<in> set xs then xs else xs @ [x])"

definition on_response :: "'a Config_scheme \<Rightarrow> response \<Rightarrow> string list \<times> string list \<Rightarrow> string list \<times> string list" where
  "on_response config resp resources =
     (if \<not> ok resp \<or> \<not> js_includes (url resp) ''/assets/'' then resources
      else
        let relativePath = js_replace (url resp) (production_url config) []
        in if endsWith (url resp) ''.css'' then (set_add relativePath (fst resources), snd resources)
           else if endsWith (url resp) ''.js'' \<and> \<not> js_includes relativePath ''/assets/index-''
           then (fst resources, set_add relativePath (snd resources))
           else resources)"

definition captured_resources :: "'a Config_scheme \<Rightarrow> response list \<Rightarrow> string list \<times> string list" where
  "captured_resources config resps = fold (on_response config) resps ([], [])"

definition css_hint :: "string \<Rightarrow> string" where
  \<open>css_hint href = ''  <link rel="preload" href="'' @ href @ ''" as="style" crossorigin>''\<close>

definition js_hint :: "string \<Rightarrow> string" where
  \<open>js_hint href = ''  <link rel="modulepreload" href="'' @ href @ ''" crossorigin>''\<close>

definition preloadHints :: "string list \<times> string list \<Rightarrow> string list" where
  "preloadHints resources = map css_hint (fst resources) @ map js_hint (snd resources)"

definition injectPreloadHints :: "string list \<times> string list \<Rightarrow> string \<Rightarrow> string" where
  "injectPreloadHints resources html =
     (let hints = preloadHints resources
      in if length hints > 0
         then js_replace html ''</head>''
                (''\<newline>'' @ join_with ''\<newline>'' hints @ ''\<newline>  </head>'')
         else html)"

text \<open>
  \<^verbatim>\<open>prerenderRoute\<close>, with the file system passed through. Everything after the
  observer is attached runs inside \<^verbatim>\<open>try\<close>, so an error of any step is the result
  \<open>False\<close> with the files as they were.
\<close>

definition prerenderRoute :: "string \<Rightarrow> page_env \<Rightarrow> string \<Rightarrow> string \<Rightarrow> string \<Rightarrow> 'a Config_scheme \<Rightarrow> fs \<Rightarrow> bool \<times> fs" where
  "prerenderRoute root page route locale theme config files =
     (case page_goto page (renderUrl config route locale theme) of
        Some e \<Rightarrow> (False, files)
      | None \<Rightarrow>
     (case page_waitForFunction page of
        Some e \<Rightarrow> (False, files)
      | None \<Rightarrow>
     (case page_waitForLoadState page of
        Some e \<Rightarrow> (False, files)
      | None \<Rightarrow>
     (case page_waitForTimeout page of
        Some e \<Rightarrow> (False, files)
      | None \<Rightarrow>
     (case page_content page of
        Inl e \<Rightarrow> (False, files)
      | Inr html \<Rightarrow>
          if length html < 1000 then (False, files)
          else
            (case prettier_format page
                    (injectPreloadHints (captured_resources config (page_responses page)) html) of
               Inl e \<Rightarrow> (False, files)
             | Inr beautifiedHtml \<Rightarrow>
                 (case write_outcome page of
                    Some e \<Rightarrow> (False, files)
                  | None \<Rightarrow>
                      (True, files(outputPath root config route locale theme \<mapsto> beautifiedHtml)))))))))"

section \<open>Rendering all tasks\<close>

record launch_options =
  launch_headless :: bool
  launch_args :: "string list"

text \<open>
  The browser and the processes around the pages: again the outcome of each call is an
  input, and a call that takes arguments is a function of them (\<open>browser_launch\<close> of the
  launch options, \<open>p_limit\<close> of the ceiling given to \<^verbatim>\<open>pLimit\<close>). \<open>config_yaml\<close> and
  \<open>routes_yaml\<close> are what reading and parsing the two YAML files gives (see \<open>loadConfig\<close>
  below).
\<close>

datatype 'a yaml_doc = YUndefined | YObject 'a

record routes_doc =
  routes_key :: "string list option"

record world =
  config_yaml :: "error + settings yaml_doc"
  routes_yaml :: "error + routes_doc yaml_doc"
  dist_exists :: bool
  server_start :: "error option"
  browser_launch :: "launch_options \<Rightarrow> error option"
  browser_newContext :: "error option"
  p_limit :: "int \<Rightarrow> error option"
  context_newPage :: "task \<Rightarrow> error option"
  page_of :: "task \<Rightarrow> page_env"
  page_close :: "task \<Rightarrow> error option"
  browser_close :: "error option"

function show_nat :: "nat \<Rightarrow> string" where
  "show_nat n =
     (if n < 10 then [''0123456789'' ! n]
      else show_nat (n div 10) @ [''0123456789'' ! (n mod 10)])"
  by pat_completeness auto
termination
  by (relation "measure id") auto

definition prodDomain :: "'a Config_scheme \<Rightarrow> string" where
  "prodDomain config = js_replace (js_replace (production_url config) ''https://'' []) ''http://'' []"

text \<open>
  \<^verbatim>\<open>config.playwright?.headless ?? false\<close> and \<^verbatim>\<open>config.playwright?.concurrency || 5\<close>:
  \<open>??\<close> replaces an absent value, \<open>||\<close> replaces an absent value and \<open>0\<close>.
\<close>

definition launchOptions :: "'a Config_scheme \<Rightarrow> launch_options" where
  "launchOptions config =
     \<lparr>launch_headless =
        (case playwright config of
           None \<Rightarrow> False
         | Some p \<Rightarrow> (case headless p of None \<Rightarrow> False | Some b \<Rightarrow> b)),
      launch_args =
        [''--host-resolver-rules=MAP '' @ prodDomain config @ '':443 localhost:'' @
           show_nat (preview_port config),
         ''--ignore-certificate-errors'']\<rparr>"

definition concurrency_limit :: "'a Config_scheme \<Rightarrow> int" where
  "concurrency_limit config =
     (case playwright config of
        None \<Rightarrow> 5
      | Some p \<Rightarrow> (case concurrency p of None \<Rightarrow> 5 | Some n \<Rightarrow> if n = 0 then 5 else n))"

text \<open>
  One task as \<^verbatim>\<open>prerenderAll\<close> wraps it: a new page, \<^verbatim>\<open>prerenderRoute\<close>, and
  \<^verbatim>\<open>page.close()\<close> in \<^verbatim>\<open>finally\<close>. A failing \<^verbatim>\<open>newPage\<close> or \<^verbatim>\<open>close\<close> rejects the
  task's promise.
\<close>

definition renderTask :: "string \<Rightarrow> world \<Rightarrow> 'a Config_scheme \<Rightarrow> task \<Rightarrow> fs \<Rightarrow> (error + bool) \<times> fs" where
  "renderTask root w config t files =
     (case context_newPage w t of
        Some e \<Rightarrow> (Inl e, files)
      | None \<Rightarrow>
          (case t of (route, locale, theme) \<Rightarrow>
             (case prerenderRoute root (page_of w t) route locale theme config files of
                (success, files') \<Rightarrow>
                  (case page_close w t of
                     Some e \<Rightarrow> (Inl e, files')
                   | None \<Rightarrow> (Inr success, files')))))"

fun runTasks :: "string \<Rightarrow> world \<Rightarrow> 'a Config_scheme \<Rightarrow> task list \<Rightarrow> fs \<Rightarrow> (error + bool) list \<times> fs" where
  "runTasks root w config [] files = ([], files)"
| "runTasks root w config (t # ts) files =
     (case renderTask root w config t files of
        (r, files') \<Rightarrow>
          (case runTasks root w config ts files' of
             (rs, files'') \<Rightarrow> (r # rs, files'')))"

fun first_error :: "(error + 'a) list \<Rightarrow> error option" where
  "first_error [] = None"
| "first_error (Inl e # rs) = Some e"
| "first_error (Inr x # rs) = first_error rs"

text \<open>
  The \<^verbatim>\<open>p-limit\<close> package throws a \<^verbatim>\<open>TypeError\<close> for a ceiling below 1 and
  returns a limiter otherwise.
\<close>

definition pLimit :: "int \<Rightarrow> error option" where
  "pLimit c = (if c < 1 then Some TypeError else None)"

text \<open>
  \<^verbatim>\<open>prerenderAll\<close>. The limiter is created from the ceiling after the browser and its
  context. The tasks write to the files in list order here; the order in which concurrent tasks
  really write is not fixed, and the count of successes does not depend on it.
  \<^verbatim>\<open>Promise.all\<close> rejects when a task's promise rejects, otherwise the successes are
  counted.
\<close>

definition prerenderAll :: "string \<Rightarrow> world \<Rightarrow> 'a Config_scheme \<Rightarrow> fs \<Rightarrow> (error + nat) \<times> fs" where
  "prerenderAll root w config files =
     (case browser_launch w (launchOptions config) of
        Some e \<Rightarrow> (Inl e, files)
      | None \<Rightarrow>
     (case browser_newContext w of
        Some e \<Rightarrow> (Inl e, files)
      | None \<Rightarrow>
     (case p_limit w (concurrency_limit config) of
        Some e \<Rightarrow> (Inl e, files)
      | None \<Rightarrow>
          (case runTasks root w config (tasks config) files of
             (results, files') \<Rightarrow>
               (case first_error results of
                  Some e \<Rightarrow> (Inl e, files')
                | None \<Rightarrow>
                    (case browser_close w of
                       Some e \<Rightarrow> (Inl e, files')
                     | None \<Rightarrow> (Inr (length (filter (\<lambda>r. r = Inr True) results)), files')))))))"

section \<open>Sitemap\<close>

definition depth :: "string \<Rightarrow> nat" where
  "depth route = length (filter (\<lambda>s. s \<noteq> []) (split_on CHR ''/'' route))"

definition calculatePriority :: "string \<Rightarrow> string" where
  "calculatePriority route =
     (if route = ''/'' then ''1.0''
      else if depth route = 1 then ''0.8''
      else if depth route = 2 then ''0.6''
      else ''0.4'')"

definition calculateChangeFreq :: "string \<Rightarrow> string" where
  "calculateChangeFreq route =
     (if route = ''/'' then ''weekly''
      else if depth route \<le> 2 then ''monthly''
      else ''yearly'')"

text \<open>\<^verbatim>\<open>config.production_url.replace(/\/$/, '')\<close>: a slash at the very end is removed.\<close>

definition replace_trailing_slash :: "string \<Rightarrow> string" where
  "replace_trailing_slash s = (if s \<noteq> [] \<and> last s = CHR ''/'' then butlast s else s)"

definition excluded :: "'a Config_scheme \<Rightarrow> string list" where
  "excluded config = (case exclude_from_sitemap config of None \<Rightarrow> [] | Some xs \<Rightarrow> xs)"

definition url_entry :: "string \<Rightarrow> string \<Rightarrow> string \<Rightarrow> string" where
  "url_entry productionUrl today route =
     (let loc = (if route = ''/'' then productionUrl @ ''/'' else productionUrl @ route)
      in join_with ''\<newline>''
           [''  <url>'',
            ''    <loc>'' @ loc @ ''</loc>'',
            ''    <lastmod>'' @ today @ ''</lastmod>'',
            ''    <changefreq>'' @ calculateChangeFreq route @ ''</changefreq>'',
            ''    <priority>'' @ calculatePriority route @ ''</priority>'',
            ''  </url>''])"

definition sitemap_urls :: "'a Config_scheme \<Rightarrow> string \<Rightarrow> string list" where
  "sitemap_urls config today =
     map (url_entry (replace_trailing_slash (production_url config)) today)
       (filter (\<lambda>route. route \<notin> set (excluded config)) (routes config))"

text \<open>
  \<^verbatim>\<open>generateSitemap\<close>; \<open>today\<close> is the date part of the current time in ISO format.
\<close>

definition xml_declaration :: string where
  \<open>xml_declaration = ''<?xml version="1.0" encoding="UTF-8"?>''\<close>

definition urlset_open :: string where
  \<open>urlset_open = ''<urlset xmlns="http://www.sitemaps.org/schemas/sitemap/0.9">''\<close>

definition sitemap_xml :: "'a Config_scheme \<Rightarrow> string \<Rightarrow> string" where
  "sitemap_xml config today =
     join_with ''\<newline>''
       ([xml_declaration, urlset_open] @ sitemap_urls config today @ [''</urlset>'', []])"

definition generateSitemap :: "string \<Rightarrow> 'a Config_scheme \<Rightarrow> string \<Rightarrow> fs \<Rightarrow> fs" where
  "generateSitemap root config today files =
     files(path_join (DIST_DIR root) ''sitemap.xml'' \<mapsto> sitemap_xml config today)"

text \<open>
  The table of the specification as a function of the depth, for comparison with the code.
\<close>

definition depth_table :: "nat \<Rightarrow> string \<times> string" where
  "depth_table d =
     (if d = 0 then (''1.0'', ''weekly'')
      else if d = 1 then (''0.8'', ''monthly'')
      else if d = 2 then (''0.6'', ''monthly'')
      else (''0.4'', ''yearly''))"

section \<open>Loading the configuration and running the pipeline\<close>

text \<open>
  \<^verbatim>\<open>loadConfig\<close>. Its two arguments are what \<^verbatim>\<open>yaml.load(readFileSync(path))\<close> gives
  for \<^verbatim>\<open>config.yaml\<close> and for \<^verbatim>\<open>routes.yaml\<close>: \<open>Inl (ENOENT path)\<close> when the file is
  missing, \<open>Inl YAMLException\<close> when it is not YAML, \<open>Inr YUndefined\<close> when it is empty,
  and \<open>Inr (YObject d)\<close> for a mapping that has the fields of the typedef. Spreading
  \<^verbatim>\<open>undefined\<close> adds no property, so an empty settings file leaves an object with the
  routes alone; reading \<^verbatim>\<open>.routes\<close> of \<^verbatim>\<open>undefined\<close> is a \<^verbatim>\<open>TypeError\<close>.
\<close>

datatype loaded_config = OnlyRoutes "string list" | Complete Config

definition loadConfig :: "error + settings yaml_doc \<Rightarrow> error + routes_doc yaml_doc \<Rightarrow> error + loaded_config" where
  "loadConfig config_src routes_src =
     (case config_src of
        Inl e \<Rightarrow> Inl e
      | Inr config \<Rightarrow>
     (case routes_src of
        Inl e \<Rightarrow> Inl e
      | Inr YUndefined \<Rightarrow> Inl TypeError
      | Inr (YObject routesData) \<Rightarrow>
          (let rs = (case routes_key routesData of None \<Rightarrow> [] | Some xs \<Rightarrow> xs)
           in case config of
                YUndefined \<Rightarrow> Inr (OnlyRoutes rs)
              | YObject s \<Rightarrow> Inr (Complete (settings.extend s (Config.fields rs))))))"

text \<open>
  \<^verbatim>\<open>main\<close>, as far as its result goes. Building the worker and generating the sitemap
  and \<^verbatim>\<open>robots.txt\<close> each run inside their own \<^verbatim>\<open>try\<close>/\<^verbatim>\<open>catch\<close> that only logs a
  warning, and stopping the server catches its own errors, so none of them changes the
  result. With only the routes loaded, \<^verbatim>\<open>config.preview_port.toString()\<close> throws in
  \<^verbatim>\<open>startPreviewServer\<close>. The process exits with 0 when \<^verbatim>\<open>main\<close> resolves to true and
  with 1 otherwise.
\<close>

definition main :: "string \<Rightarrow> world \<Rightarrow> fs \<Rightarrow> bool" where
  "main root w files =
     (case loadConfig (config_yaml w) (routes_yaml w) of
        Inl e \<Rightarrow> False
      | Inr loaded \<Rightarrow>
          if \<not> dist_exists w then False
          else
            (case loaded of
               OnlyRoutes rs \<Rightarrow> False
             | Complete config \<Rightarrow>
                 (case server_start w of
                    Some e \<Rightarrow> False
                  | None \<Rightarrow>
                      (case fst (prerenderAll root w config files) of
                         Inl e \<Rightarrow> False
                       | Inr successCount \<Rightarrow>
                           successCount =
                             length (routes config) * length (locales config) *
                             length (themes config)))))"

definition exit_code :: "string \<Rightarrow> world \<Rightarrow> fs \<Rightarrow> nat" where
  "exit_code root w files = (if main root w files then 0 else 1)"

section \<open>Well-formed configurations and examples\<close>

text \<open>
  A route is well formed when it is \<open>/\<close> or a slash followed by segments separated by
  single slashes, none of them empty, \<open>.\<close> or \<open>..\<close>. A locale or theme code is plain when
  it has no dot and no slash. A configuration is well formed when its routes are, its
  codes other than the two defaults are plain, and no theme other than the default one
  is also a locale other than the default one.
\<close>

definition plain_segment :: "string \<Rightarrow> bool" where
  "plain_segment s = (s \<noteq> [] \<and> s \<noteq> ''.'' \<and> s \<noteq> ''..'')"

fun wf_route :: "string \<Rightarrow> bool" where
  "wf_route [] = False"
| "wf_route (c # cs) =
     (c = CHR ''/'' \<and> (cs = [] \<or> list_all plain_segment (split_on CHR ''/'' cs)))"

definition plain_code :: "string \<Rightarrow> bool" where
  "plain_code x = (CHR ''.'' \<notin> set x \<and> CHR ''/'' \<notin> set x)"

definition wf_config :: "'a Config_scheme \<Rightarrow> bool" where
  "wf_config config =
     (list_all wf_route (routes config) \<and>
      list_all (\<lambda>l. l = default_locale config \<or> plain_code l) (locales config) \<and>
      list_all (\<lambda>t. t = default_theme config \<or> plain_code t) (themes config) \<and>
      list_all (\<lambda>t. t = default_theme config \<or>
                  list_all (\<lambda>l. l = default_locale config \<or> t \<noteq> l) (locales config))
        (themes config))"

definition fileName :: "string \<Rightarrow> string" where
  "fileName sfx = ''index'' @ sfx @ ''.html''"

definition example_settings :: settings where
  "example_settings =
     \<lparr>production_url = ''https://www.artek.tc'', preview_port = 4173,
      default_locale = ''tr'', default_theme = ''light'',
      locales = [''tr'', ''en''], themes = [''light'', ''dark''],
      exclude_from_sitemap = Some [''/about''],
      playwright = Some \<lparr>headless = Some True, concurrency = Some 5\<rparr>,
      page_load_timeout = 30, wait_for_ready_timeout = 10,
      network_idle_timeout = 10, additional_wait = 1\<rparr>"

definition example_config :: Config where
  "example_config = settings.extend example_settings (Config.fields [''/'', ''/about''])"

text \<open>A configuration in which \<open>en\<close> is both a theme and a locale.\<close>

definition clash_config :: Config where
  "clash_config =
     settings.extend (example_settings\<lparr>themes := [''light'', ''en'']\<rparr>) (Config.fields [''/''])"

text \<open>A page that loads at once and holds a document of a few characters.\<close>

definition blank_page :: page_env where
  "blank_page =
     \<lparr>page_goto = (\<lambda>u. None), page_waitForFunction = None, page_waitForLoadState = None,
      page_waitForTimeout = None, page_responses = [],
      page_content = Inr ''<html><head></head><body></body></html>'',
      prettier_format = Inr, write_outcome = None\<rparr>"

text \<open>
  The outcome of one task does not depend on the files present (see \<open>renderTask_fst\<close>
  below), so it is read off an empty file system. The browser is ready when launching it,
  opening the context, creating the limiter and closing the browser all succeed; the
  pipeline is ready for rendering when the configuration is complete, \<^verbatim>\<open>dist/\<close>
  exists, the preview server has started and the browser is ready.
\<close>

definition task_outcome :: "string \<Rightarrow> world \<Rightarrow> 'a Config_scheme \<Rightarrow> task \<Rightarrow> error + bool" where
  "task_outcome root w config t = fst (renderTask root w config t Map.empty)"

definition browser_ready :: "world \<Rightarrow> 'a Config_scheme \<Rightarrow> bool" where
  "browser_ready w config =
     (browser_launch w (launchOptions config) = None \<and> browser_newContext w = None \<and>
      p_limit w (concurrency_limit config) = None \<and> browser_close w = None)"

definition pipeline_ready :: "world \<Rightarrow> Config \<Rightarrow> bool" where
  "pipeline_ready w config =
     (loadConfig (config_yaml w) (routes_yaml w) = Inr (Complete config) \<and>
      dist_exists w \<and> server_start w = None \<and> browser_ready w config)"

text \<open>A page that renders a document of more than 1000 code units, and a run without errors.\<close>

definition full_page :: page_env where
  "full_page =
     \<lparr>page_goto = (\<lambda>u. None), page_waitForFunction = None, page_waitForLoadState = None,
      page_waitForTimeout = None, page_responses = [],
      page_content =
        Inr (''<html><head></head><body>'' @ replicate 1000 (CHR ''x'') @ ''</body></html>''),
      prettier_format = Inr, write_outcome = None\<rparr>"

definition calm_world :: world where
  "calm_world =
     \<lparr>config_yaml = Inr (YObject example_settings),
      routes_yaml = Inr (YObject \<lparr>routes_key = Some [''/'', ''/about'']\<rparr>),
      dist_exists = True, server_start = None,
      browser_launch = (\<lambda>opts. None), browser_newContext = None, p_limit = pLimit,
      context_newPage = (\<lambda>t. None), page_of = (\<lambda>t. full_page),
      page_close = (\<lambda>t. None), browser_close = None\<rparr>"

text \<open>
  A page as \<open>full_page\<close> that has loaded one stylesheet whose name holds the characters
  \<open>$&\<close>, and the link that ends up in the document for it.
\<close>

definition dollar_page :: page_env where
  "dollar_page =
     full_page\<lparr>page_responses := [\<lparr>url = ''https://www.artek.tc/assets/a$&b.css'', ok = True\<rparr>]\<rparr>"

definition spliced_hint :: string where
  \<open>spliced_hint = ''  <link rel="preload" href="/assets/a</head>b.css" as="style" crossorigin>''\<close>

text \<open>
  Further examples: a run in which every call succeeds but the last one, closing the
  browser; the example configuration without the \<^verbatim>\<open>playwright\<close> settings; a
  configuration that lists one route twice, and the \<open>url\<close> entry of that route.
\<close>

definition closing_world :: world where
  "closing_world = calm_world\<lparr>browser_close := Some Rejected\<rparr>"

definition bare_config :: Config where
  "bare_config = example_config\<lparr>playwright := None\<rparr>"

definition dup_config :: Config where
  "dup_config = example_config\<lparr>exclude_from_sitemap := None, routes := [''/about'', ''/about'']\<rparr>"

definition about_entry :: string where
  "about_entry =
     ''  <url>\<newline>    <loc>https://www.artek.tc/about</loc>\<newline>    <lastmod>2025-01-01</lastmod>\<newline>    <changefreq>monthly</changefreq>\<newline>    <priority>0.8</priority>\<newline>  </url>''"

section \<open>Facts about splitting and joining\<close>

lemma split_on_not_Nil: "split_on c s \<noteq> []"
  by (induction s) (auto split: list.splits)

lemma join_with_Cons:
  "ss \<noteq> [] \<Longrightarrow> join_with sep (s # ss) = s @ sep @ join_with sep ss"
  by (cases ss) auto

lemma join_split_on: "join_with [c] (split_on c s) = s"
proof (induction s)
  case Nil
  show ?case by simp
next
  case (Cons x xs)
  obtain t ts where ts: "split_on c xs = t # ts"
    using split_on_not_Nil [of c xs] by (cases "split_on c xs") auto
  show ?case
  proof (cases "x = c")
    case True
    with Cons ts show ?thesis by (simp add: join_with_Cons)
  next
    case False
    with Cons ts show ?thesis by (cases ts) auto
  qed
qed

lemma split_on_free: "c \<notin> set s \<Longrightarrow> split_on c s = [s]"
  by (induction s) auto

lemma split_on_append:
  "split_on c (a @ c # b) = split_on c a @ split_on c b"
proof (induction a)
  case Nil
  show ?case by simp
next
  case (Cons x xs)
  obtain t ts where ts: "split_on c xs = t # ts"
    using split_on_not_Nil [of c xs] by (cases "split_on c xs") auto
  with Cons show ?case by auto
qed

section \<open>Facts about the output path\<close>

lemma normalizeString_plain:
  "list_all plain_segment ys \<Longrightarrow> normalizeString a res ys = rev res @ ys"
  by (induction ys arbitrary: res) (auto simp: plain_segment_def)

lemma normalizeString_append:
  "normalizeString a res (xs @ ys) = normalizeString a (rev (normalizeString a res xs)) ys"
  by (induction xs arbitrary: res; cases a) (simp_all split: list.splits)

lemma join_with_append:
  "xs \<noteq> [] \<Longrightarrow> ys \<noteq> [] \<Longrightarrow>
     join_with sep (xs @ ys) = join_with sep xs @ sep @ join_with sep ys"
  by (induction sep xs rule: join_with.induct) (auto simp: join_with_Cons)

lemma normalizeString_under_dir:
  assumes "list_all plain_segment (split_on CHR ''/'' rel)"
  shows "join_with ''/'' (normalizeString a [] (split_on CHR ''/'' (D @ CHR ''/'' # rel))) =
           (let nd = normalizeString a [] (split_on CHR ''/'' D)
            in if nd = [] then rel else join_with ''/'' nd @ ''/'' @ rel)"
proof -
  let ?nd = "normalizeString a [] (split_on CHR ''/'' D)"
  let ?S = "split_on CHR ''/'' rel"
  have "normalizeString a [] (split_on CHR ''/'' (D @ CHR ''/'' # rel)) = ?nd @ ?S"
    using assms
    by (simp add: split_on_append normalizeString_append [of _ _ "split_on CHR ''/'' D"]
          normalizeString_plain)
  moreover have "?S \<noteq> []" by (rule split_on_not_Nil)
  moreover have "join_with ''/'' ?S = rel" by (rule join_split_on)
  ultimately show ?thesis
    by (simp add: join_with_append Let_def)
qed

lemma normalize_under_dir:
  assumes D: "D \<noteq> []" and rel: "rel \<noteq> []" "last rel \<noteq> CHR ''/''"
    and plain: "list_all plain_segment (split_on CHR ''/'' rel)"
  shows "path_join D rel =
           (if hd D = CHR ''/'' then ''/'' else []) @
           (let nd = normalizeString (hd D \<noteq> CHR ''/'') [] (split_on CHR ''/'' D)
            in if nd = [] then rel else join_with ''/'' nd @ ''/'' @ rel)"
proof -
  have "path_join D rel = normalize (D @ CHR ''/'' # rel)"
    using D rel by (simp add: path_join_def)
  also have "\<dots> = (if hd D = CHR ''/'' then ''/'' else []) @
           (let nd = normalizeString (hd D \<noteq> CHR ''/'') [] (split_on CHR ''/'' D)
            in if nd = [] then rel else join_with ''/'' nd @ ''/'' @ rel)"
    using D rel unfolding normalize_def
    by (simp add: normalizeString_under_dir [OF plain] Let_def)
  finally show ?thesis .
qed

lemma path_join_not_Nil: "path_join a b \<noteq> []"
  by (auto simp: path_join_def normalize_def Let_def)

lemma path_join_inject:
  assumes "rel1 \<noteq> []" "last rel1 \<noteq> CHR ''/''" "list_all plain_segment (split_on CHR ''/'' rel1)"
    and "rel2 \<noteq> []" "last rel2 \<noteq> CHR ''/''" "list_all plain_segment (split_on CHR ''/'' rel2)"
    and "path_join (DIST_DIR root) rel1 = path_join (DIST_DIR root) rel2"
  shows "rel1 = rel2"
proof -
  have D: "DIST_DIR root \<noteq> []"
    by (simp add: DIST_DIR_def path_join_not_Nil)
  show ?thesis
    using assms(7)
    unfolding normalize_under_dir [OF D assms(1-3)] normalize_under_dir [OF D assms(4-6)]
    by (simp add: Let_def split: if_splits)
qed

lemma fileName_inject: "fileName a = fileName b \<Longrightarrow> a = b"
  by (simp add: fileName_def)

lemma fileName_plain: "plain_segment (fileName sfx)"
  by (simp add: fileName_def plain_segment_def)

lemma relative_segments:
  assumes "wf_route r" and "CHR ''/'' \<notin> set sfx"
  shows "outputFile r @ sfx @ ''.html'' \<noteq> []"
    and "last (outputFile r @ sfx @ ''.html'') \<noteq> CHR ''/''"
    and "split_on CHR ''/'' (outputFile r @ sfx @ ''.html'') =
           (if r = ''/'' then [] else split_on CHR ''/'' (tl r)) @ [fileName sfx]"
proof -
  show "outputFile r @ sfx @ ''.html'' \<noteq> []" by simp
  show "last (outputFile r @ sfx @ ''.html'') \<noteq> CHR ''/''" by simp
  have free: "CHR ''/'' \<notin> set (fileName sfx)"
    using assms(2) by (simp add: fileName_def)
  show "split_on CHR ''/'' (outputFile r @ sfx @ ''.html'') =
           (if r = ''/'' then [] else split_on CHR ''/'' (tl r)) @ [fileName sfx]"
  proof (cases "r = ''/''")
    case True
    then have "outputFile r @ sfx @ ''.html'' = fileName sfx"
      by (simp add: outputFile_def fileName_def)
    with True free show ?thesis by (simp add: split_on_free)
  next
    case False
    with assms(1) obtain cs where r: "r = CHR ''/'' # cs"
      by (cases r) auto
    with False have "outputFile r @ sfx @ ''.html'' = cs @ CHR ''/'' # fileName sfx"
      by (simp add: outputFile_def fileName_def)
    with False r free show ?thesis
      by (simp add: split_on_append split_on_free)
  qed
qed

lemma route_of_segments:
  assumes "wf_route r1" "wf_route r2"
    and "(if r1 = ''/'' then [] else split_on CHR ''/'' (tl r1)) =
         (if r2 = ''/'' then [] else split_on CHR ''/'' (tl r2))"
  shows "r1 = r2"
proof -
  obtain c1 where r1: "r1 = CHR ''/'' # c1" using assms(1) by (cases r1) auto
  obtain c2 where r2: "r2 = CHR ''/'' # c2" using assms(2) by (cases r2) auto
  show ?thesis
  proof (cases "c1 = [] \<or> c2 = []")
    case True
    with assms(3) r1 r2 show ?thesis
      by (auto simp: split_on_not_Nil split_on_not_Nil [THEN not_sym] split: if_splits)
  next
    case False
    with assms(3) r1 r2 have "split_on CHR ''/'' c1 = split_on CHR ''/'' c2" by simp
    then have "join_with ''/'' (split_on CHR ''/'' c1) = join_with ''/'' (split_on CHR ''/'' c2)"
      by simp
    then show ?thesis using r1 r2 by (simp add: join_split_on)
  qed
qed

lemma dot_split:
  "CHR ''.'' \<notin> set a \<Longrightarrow> CHR ''.'' \<notin> set c \<Longrightarrow> a @ CHR ''.'' # b = c @ CHR ''.'' # d \<Longrightarrow>
     a = c \<and> b = d"
proof (induction a arbitrary: c)
  case Nil
  then show ?case by (cases c) auto
next
  case (Cons x xs)
  then show ?case by (cases c) auto
qed

lemma suffix_inject:
  assumes "t1 = default_theme config \<or> plain_code t1" "t2 = default_theme config \<or> plain_code t2"
    and "l1 = default_locale config \<or> plain_code l1" "l2 = default_locale config \<or> plain_code l2"
    and "t1 = default_theme config \<or> l2 = default_locale config \<or> t1 \<noteq> l2"
    and "t2 = default_theme config \<or> l1 = default_locale config \<or> t2 \<noteq> l1"
    and "themeSuffix config t1 @ localeSuffix config l1 = themeSuffix config t2 @ localeSuffix config l2"
  shows "t1 = t2 \<and> l1 = l2"
  using assms dot_split [of t1 t2 l1 l2]
  by (auto simp: themeSuffix_def localeSuffix_def plain_code_def split: if_splits)

lemma suffix_no_sep:
  "t = default_theme config \<or> plain_code t \<Longrightarrow> l = default_locale config \<or> plain_code l \<Longrightarrow>
     CHR ''/'' \<notin> set (themeSuffix config t @ localeSuffix config l)"
  by (auto simp: themeSuffix_def localeSuffix_def plain_code_def)

lemma set_tasks:
  "set (tasks config) = set (routes config) \<times> set (locales config) \<times> set (themes config)"
  by (auto simp: tasks_def)

lemma length_concat_const:
  "(\<And>x. length (f x) = n) \<Longrightarrow> length (concat (map f xs)) = length xs * n"
  by (induction xs) simp_all

lemma length_tasks:
  "length (tasks config) =
     length (routes config) * length (locales config) * length (themes config)"
  unfolding tasks_def
  by (subst length_concat_const [where n = "length (locales config) * length (themes config)"])
     (simp_all add: length_concat_const [where n = "length (themes config)"])

lemma relativePath_inject:
  assumes wf: "wf_config config"
    and m1: "r1 \<in> set (routes config)" "l1 \<in> set (locales config)" "t1 \<in> set (themes config)"
    and m2: "r2 \<in> set (routes config)" "l2 \<in> set (locales config)" "t2 \<in> set (themes config)"
    and eq: "outputPath root config r1 l1 t1 = outputPath root config r2 l2 t2"
  shows "r1 = r2 \<and> l1 = l2 \<and> t1 = t2"
proof -
  let ?s1 = "themeSuffix config t1 @ localeSuffix config l1"
  let ?s2 = "themeSuffix config t2 @ localeSuffix config l2"
  from wf m1 m2 have routes: "wf_route r1" "wf_route r2"
    and codes: "l1 = default_locale config \<or> plain_code l1"
      "t1 = default_theme config \<or> plain_code t1"
      "l2 = default_locale config \<or> plain_code l2"
      "t2 = default_theme config \<or> plain_code t2"
    and cross: "t1 = default_theme config \<or> l2 = default_locale config \<or> t1 \<noteq> l2"
               "t2 = default_theme config \<or> l1 = default_locale config \<or> t2 \<noteq> l1"
    by (auto simp: wf_config_def list_all_iff)
  have free: "CHR ''/'' \<notin> set ?s1" "CHR ''/'' \<notin> set ?s2"
    using codes by (simp_all add: suffix_no_sep del: set_append)
  note seg1 = relative_segments [OF routes(1) free(1)]
  note seg2 = relative_segments [OF routes(2) free(2)]
  have plain1: "list_all plain_segment (split_on CHR ''/'' (outputFile r1 @ ?s1 @ ''.html''))"
    using routes(1) unfolding seg1(3) by (cases r1) (auto simp: fileName_plain)
  have plain2: "list_all plain_segment (split_on CHR ''/'' (outputFile r2 @ ?s2 @ ''.html''))"
    using routes(2) unfolding seg2(3) by (cases r2) (auto simp: fileName_plain)
  have "outputFile r1 @ ?s1 @ ''.html'' = outputFile r2 @ ?s2 @ ''.html''"
    using eq path_join_inject [OF seg1(1,2) plain1 seg2(1,2) plain2, of root]
    by (simp add: outputPath_def relativePath_def)
  then have "split_on CHR ''/'' (outputFile r1 @ ?s1 @ ''.html'') =
             split_on CHR ''/'' (outputFile r2 @ ?s2 @ ''.html'')"
    by (rule arg_cong)
  then have segs: "(if r1 = ''/'' then [] else split_on CHR ''/'' (tl r1)) =
                   (if r2 = ''/'' then [] else split_on CHR ''/'' (tl r2))"
    and name: "fileName ?s1 = fileName ?s2"
    unfolding seg1(3) seg2(3) by simp_all
  have "r1 = r2" using routes segs by (rule route_of_segments)
  moreover have "t1 = t2 \<and> l1 = l2"
    using codes cross fileName_inject [OF name]
    by (intro suffix_inject [of t1 config t2 l1 l2]) simp_all
  ultimately show ?thesis by simp
qed

lemma wf_route_split:
  assumes "wf_route root" "root \<noteq> ''/''"
  obtains cs where "root = CHR ''/'' # cs" "cs \<noteq> []" "list_all plain_segment (split_on CHR ''/'' cs)"
  using assms by (cases root) auto

lemma DIST_DIR_plain:
  assumes "wf_route root" "root \<noteq> ''/''"
  shows "DIST_DIR root = root @ ''/dist''"
proof -
  from assms obtain cs where r: "root = CHR ''/'' # cs" and cs: "cs \<noteq> []"
    and plain: "list_all plain_segment (split_on CHR ''/'' cs)"
    by (rule wf_route_split)
  have d: "list_all plain_segment (split_on CHR ''/'' ''dist'')"
    by (simp add: plain_segment_def)
  have nd: "normalizeString False [] (split_on CHR ''/'' root) = split_on CHR ''/'' cs"
    using plain by (simp add: r normalizeString_plain)
  have ne: "split_on CHR ''/'' cs \<noteq> []" by (rule split_on_not_Nil)
  have "path_join root ''dist'' = ''/'' @ cs @ ''/'' @ ''dist''"
    using normalize_under_dir [of root "''dist''", OF _ _ _ d] nd ne
    by (simp add: r join_split_on)
  then show ?thesis by (simp add: DIST_DIR_def r)
qed

lemma outputPath_under_root:
  assumes root: "wf_route root" "root \<noteq> ''/''" and route: "wf_route r"
    and codes: "t = default_theme config \<or> plain_code t" "l = default_locale config \<or> plain_code l"
  shows "outputPath root config r l t = root @ ''/dist/'' @ relativePath config r l t"
proof -
  let ?s = "themeSuffix config t @ localeSuffix config l"
  let ?rel = "outputFile r @ ?s @ ''.html''"
  from root obtain cs where r: "root = CHR ''/'' # cs" and cs: "cs \<noteq> []"
    and plain: "list_all plain_segment (split_on CHR ''/'' cs)"
    by (rule wf_route_split)
  have free: "CHR ''/'' \<notin> set ?s"
    using codes by (simp add: suffix_no_sep del: set_append)
  note seg = relative_segments [OF route free]
  have prel: "list_all plain_segment (split_on CHR ''/'' ?rel)"
    using route unfolding seg(3) by (cases r) (auto simp: fileName_plain)
  have segD: "split_on CHR ''/'' (root @ ''/dist'') = [] # split_on CHR ''/'' cs @ [''dist'']"
    using split_on_append [of "CHR ''/''" cs "''dist''"] by (simp add: r)
  have nd: "normalizeString False [] (split_on CHR ''/'' (root @ ''/dist'')) =
              split_on CHR ''/'' cs @ [''dist'']"
    using plain unfolding segD by (simp add: normalizeString_plain plain_segment_def)
  have j: "join_with ''/'' (split_on CHR ''/'' cs @ [''dist'']) = cs @ ''/dist''"
    using split_on_not_Nil [of "CHR ''/''" cs]
    by (simp add: join_with_append join_split_on)
  have "path_join (root @ ''/dist'') ?rel = ''/'' @ cs @ ''/dist'' @ ''/'' @ ?rel"
    using normalize_under_dir [of "root @ ''/dist''" ?rel, OF _ seg(1) seg(2) prel] nd j
    by (simp add: r)
  then show ?thesis
    unfolding outputPath_def relativePath_def DIST_DIR_plain [OF root]
    by (simp add: r)
qed

text \<open>
  The end-to-end example of the specification: routes \<open>/\<close> and \<open>/about\<close>, locales \<open>tr\<close>
  (default) and \<open>en\<close>, themes \<open>light\<close> (default) and \<open>dark\<close> give eight files.
\<close>

lemma example_output_paths:
  "map (\<lambda>(r, l, t). outputPath ''/srv/app'' example_config r l t) (tasks example_config) =
     [''/srv/app/dist/index.html'', ''/srv/app/dist/index.dark.html'',
      ''/srv/app/dist/index.en.html'', ''/srv/app/dist/index.dark.en.html'',
      ''/srv/app/dist/about/index.html'', ''/srv/app/dist/about/index.dark.html'',
      ''/srv/app/dist/about/index.en.html'', ''/srv/app/dist/about/index.dark.en.html'']"
  by (simp add: tasks_def outputPath_def relativePath_def outputFile_def themeSuffix_def
        localeSuffix_def DIST_DIR_def path_join_def normalize_def example_config_def
        example_settings_def settings.defs Config.defs)

section \<open>Facts about the sitemap\<close>

lemma depth_root: "depth ''/'' = 0"
  by (simp add: depth_def)

lemma depth_pos_not_root: "0 < depth route \<Longrightarrow> route \<noteq> ''/''"
  using depth_root by (cases "route = ''/''") simp_all

lemma priority_by_depth:
  "0 < depth route \<Longrightarrow>
     calculatePriority route =
       (if depth route = 1 then ''0.8'' else if depth route = 2 then ''0.6'' else ''0.4'')"
  by (frule depth_pos_not_root) (simp only: calculatePriority_def if_False)

lemma changefreq_by_depth:
  "0 < depth route \<Longrightarrow>
     calculateChangeFreq route = (if depth route \<le> 2 then ''monthly'' else ''yearly'')"
  by (frule depth_pos_not_root) (simp only: calculateChangeFreq_def if_False)

lemma filter_plain: "list_all plain_segment xs \<Longrightarrow> filter (\<lambda>s. s \<noteq> []) xs = xs"
  by (induction xs) (auto simp: plain_segment_def)

lemma wf_route_depth: "wf_route route \<Longrightarrow> route \<noteq> ''/'' \<Longrightarrow> 0 < depth route"
proof -
  assume wf: "wf_route route" and nr: "route \<noteq> ''/''"
  then obtain cs where r: "route = CHR ''/'' # cs" and cs: "cs \<noteq> []"
    and plain: "list_all plain_segment (split_on CHR ''/'' cs)"
    by (cases route) auto
  have "depth route = length (split_on CHR ''/'' cs)"
    using plain by (simp add: depth_def r filter_plain)
  then show ?thesis
    using split_on_not_Nil [of "CHR ''/''" cs] by simp
qed

lemma table_by_depth:
  assumes "route = ''/'' \<or> 0 < depth route"
  shows "(calculatePriority route, calculateChangeFreq route) = depth_table (depth route)"
proof (cases "route = ''/''")
  case True
  then show ?thesis
    by (simp add: depth_root depth_table_def calculatePriority_def calculateChangeFreq_def)
next
  case False
  with assms have "0 < depth route" by simp
  then show ?thesis
    by (simp add: priority_by_depth changefreq_by_depth depth_table_def)
qed

lemma tail_cancel:
  assumes "u @ cf @ C @ pr @ E = v @ cf' @ C @ pr' @ E" and "length pr = length pr'"
  shows "u @ cf = v @ cf' \<and> pr = pr'"
proof -
  from assms(1) have "(u @ cf) @ (C @ pr @ E) = (v @ cf') @ (C @ pr' @ E)"
    by simp
  moreover have "length (C @ pr @ E) = length (C @ pr' @ E)"
    using assms(2) by simp
  ultimately have "u @ cf = v @ cf' \<and> C @ pr @ E = C @ pr' @ E"
    using append_eq_append_conv [of "u @ cf" "v @ cf'" "C @ pr @ E" "C @ pr' @ E"] by blast
  then show ?thesis by simp
qed

lemma freq_cancel:
  assumes "u @ cf = v @ cf'"
    and "cf \<in> {''weekly'', ''monthly'', ''yearly''}"
    and "cf' \<in> {''weekly'', ''monthly'', ''yearly''}"
  shows "u = v"
proof -
  from assms(1) have "rev (u @ cf) = rev (v @ cf')" by simp
  then have "rev cf @ rev u = rev cf' @ rev v" by (simp only: rev_append)
  with assms(2,3) show ?thesis by auto
qed

lemma changefreq_values: "calculateChangeFreq r \<in> {''weekly'', ''monthly'', ''yearly''}"
  by (simp add: calculateChangeFreq_def)

lemma priority_length: "length (calculatePriority r) = 3"
  by (simp add: calculatePriority_def)

lemma url_entry_shape:
  "url_entry p d r =
     (''  <url>\<newline>    <loc>'' @ p @ r @ ''</loc>\<newline>    <lastmod>'' @ d @
        ''</lastmod>\<newline>    <changefreq>'') @
     calculateChangeFreq r @ ''</changefreq>\<newline>    <priority>'' @
     calculatePriority r @ ''</priority>\<newline>  </url>''"
  by (simp add: url_entry_def)

lemma url_entry_inject:
  assumes "url_entry p d r1 = url_entry p d r2"
  shows "r1 = r2"
proof -
  note eq = assms [unfolded url_entry_shape]
  have "length (calculatePriority r1) = length (calculatePriority r2)"
    by (simp only: priority_length)
  with eq have "(''  <url>\<newline>    <loc>'' @ p @ r1 @ ''</loc>\<newline>    <lastmod>'' @ d @
        ''</lastmod>\<newline>    <changefreq>'') @ calculateChangeFreq r1 =
      (''  <url>\<newline>    <loc>'' @ p @ r2 @ ''</loc>\<newline>    <lastmod>'' @ d @
        ''</lastmod>\<newline>    <changefreq>'') @ calculateChangeFreq r2"
    by (rule tail_cancel [THEN conjunct1])
  then have "''  <url>\<newline>    <loc>'' @ p @ r1 @ ''</loc>\<newline>    <lastmod>'' @ d @
        ''</lastmod>\<newline>    <changefreq>'' =
      ''  <url>\<newline>    <loc>'' @ p @ r2 @ ''</loc>\<newline>    <lastmod>'' @ d @
        ''</lastmod>\<newline>    <changefreq>''"
    using changefreq_values [of r1] changefreq_values [of r2] by (rule freq_cancel)
  then show ?thesis by simp
qed

lemma count_list_filter:
  "count_list (filter P xs) r = (if P r then count_list xs r else 0)"
  by (induction xs) auto

lemma count_list_distinct: "distinct xs \<Longrightarrow> r \<in> set xs \<Longrightarrow> count_list xs r = 1"
  by (induction xs) auto

section \<open>Facts about running the tasks\<close>

lemma prerenderRoute_fst:
  "fst (prerenderRoute root page r l t config files) =
   fst (prerenderRoute root page r l t config files')"
  by (simp add: prerenderRoute_def split: option.splits sum.splits)

lemma renderTask_fst:
  "fst (renderTask root w config t files) = task_outcome root w config t"
proof -
  obtain r l th where t: "t = (r, l, th)" by (cases t) auto
  obtain s f where a: "prerenderRoute root (page_of w t) r l th config files = (s, f)"
    by (cases "prerenderRoute root (page_of w t) r l th config files") auto
  obtain s' f' where b: "prerenderRoute root (page_of w t) r l th config Map.empty = (s', f')"
    by (cases "prerenderRoute root (page_of w t) r l th config Map.empty") auto
  have "s = s'"
    using prerenderRoute_fst [of root "page_of w t" r l th config files Map.empty] a b by simp
  with a b show ?thesis
    unfolding task_outcome_def renderTask_def t [symmetric]
    by (simp add: t split: option.splits)
qed

lemma fst_runTasks:
  "fst (runTasks root w config ts files) = map (task_outcome root w config) ts"
proof (induction ts arbitrary: files)
  case Nil
  show ?case by simp
next
  case (Cons t ts)
  obtain r f where a: "renderTask root w config t files = (r, f)"
    by (cases "renderTask root w config t files") auto
  obtain rs f' where b: "runTasks root w config ts f = (rs, f')"
    by (cases "runTasks root w config ts f") auto
  from a have "r = task_outcome root w config t"
    using renderTask_fst [of root w config t files] by simp
  moreover from b have "rs = map (task_outcome root w config) ts"
    using Cons.IH [of f] by simp
  ultimately show ?case using a b by simp
qed

lemma filter_all_length: "length (filter P xs) = length xs \<longleftrightarrow> (\<forall>x \<in> set xs. P x)"
proof -
  have "length (filter P xs) + length (filter (\<lambda>x. \<not> P x) xs) = length xs"
    by (rule sum_length_filter_compl)
  then have "length (filter P xs) = length xs \<longleftrightarrow> filter (\<lambda>x. \<not> P x) xs = []"
    by auto
  then show ?thesis
    by (simp add: filter_empty_conv)
qed

lemma first_error_None: "first_error rs = None \<longleftrightarrow> (\<forall>r \<in> set rs. \<exists>b. r = Inr b)"
  by (induction rs rule: first_error.induct) auto

lemma prerenderAll_result:
  "fst (prerenderAll root w config files) = Inr n \<longleftrightarrow>
     browser_ready w config \<and>
     (\<forall>t \<in> set (tasks config). \<exists>b. task_outcome root w config t = Inr b) \<and>
     n = length (filter (\<lambda>r. r = Inr True) (map (task_outcome root w config) (tasks config)))"
proof -
  obtain rs f where a: "runTasks root w config (tasks config) files = (rs, f)"
    by (cases "runTasks root w config (tasks config) files") auto
  then have rs: "rs = map (task_outcome root w config) (tasks config)"
    using fst_runTasks [of root w config "tasks config" files] by simp
  have fe: "first_error rs = None \<longleftrightarrow>
              (\<forall>t \<in> set (tasks config). \<exists>b. task_outcome root w config t = Inr b)"
    unfolding first_error_None rs by auto
  show ?thesis
    unfolding prerenderAll_def a browser_ready_def
    using fe rs by (auto split: option.splits)
qed

lemma prerenderAll_all:
  "fst (prerenderAll root w config files) = Inr (length (tasks config)) \<longleftrightarrow>
     browser_ready w config \<and> (\<forall>t \<in> set (tasks config). task_outcome root w config t = Inr True)"
proof -
  have "length (tasks config) =
          length (filter (\<lambda>r. r = Inr True) (map (task_outcome root w config) (tasks config))) \<longleftrightarrow>
        (\<forall>t \<in> set (tasks config). task_outcome root w config t = Inr True)"
    using filter_all_length [of "\<lambda>r. r = Inr True" "map (task_outcome root w config) (tasks config)"]
    by auto
  then show ?thesis
    unfolding prerenderAll_result by auto
qed

lemma main_iff:
  "main root w files \<longleftrightarrow>
     (\<exists>config. pipeline_ready w config \<and>
        (\<forall>t \<in> set (tasks config). task_outcome root w config t = Inr True))"
proof (cases "loadConfig (config_yaml w) (routes_yaml w)")
  case (Inl e)
  then show ?thesis by (simp add: main_def pipeline_ready_def)
next
  case (Inr loaded)
  show ?thesis
  proof (cases loaded)
    case (OnlyRoutes rs)
    with Inr show ?thesis by (simp add: main_def pipeline_ready_def)
  next
    case (Complete config)
    have "main root w files \<longleftrightarrow>
            dist_exists w \<and> server_start w = None \<and>
            fst (prerenderAll root w config files) = Inr (length (tasks config))"
      using Inr Complete
      by (auto simp: main_def length_tasks split: option.splits sum.splits)
    with Inr Complete show ?thesis
      by (auto simp: pipeline_ready_def prerenderAll_all)
  qed
qed

text \<open>With the limiter of the package, a ceiling below 1 stops \<^verbatim>\<open>prerenderAll\<close>.\<close>

lemma prerenderAll_bad_ceiling:
  assumes "p_limit w = pLimit" and "browser_launch w (launchOptions config) = None"
    and "browser_newContext w = None" and "concurrency_limit config < 1"
  shows "prerenderAll root w config files = (Inl TypeError, files)"
  using assms by (simp add: prerenderAll_def pLimit_def)

lemma calm_world_outcome: "task_outcome root calm_world config t = Inr True"
  by (cases t) (simp add: task_outcome_def renderTask_def prerenderRoute_def calm_world_def full_page_def)

lemma closing_world_outcome: "task_outcome root closing_world config t = Inr True"
  by (cases t)
     (simp add: task_outcome_def renderTask_def prerenderRoute_def closing_world_def
        calm_world_def full_page_def)

section \<open>Facts about the preload hints\<close>

text \<open>
  For a document that contains \<^verbatim>\<open></head>\<close> and captured paths without a dollar sign,
  the hints go in front of the first \<^verbatim>\<open></head>\<close>, one per line.
\<close>

lemma getSubstitution_plain:
  "CHR ''$'' \<notin> set template \<Longrightarrow> getSubstitution matched preceding following template = template"
  by (induction matched preceding following template rule: getSubstitution.induct) auto

lemma find_first_sound:
  "find_first pat s = Some (preceding, following) \<Longrightarrow> s = preceding @ pat @ following"
proof (induction s arbitrary: preceding)
  case Nil
  then show ?case by (auto split: if_splits)
next
  case (Cons c cs)
  show ?case
  proof (cases "take (length pat) (c # cs) = pat")
    case True
    with Cons.prems have "preceding = []" "following = drop (length pat) (c # cs)" by auto
    with True show ?thesis
      by (metis append_Nil append_take_drop_id)
  next
    case False
    with Cons.prems obtain b where "find_first pat cs = Some (b, following)" "preceding = c # b"
      by auto
    with Cons.IH [of b] show ?thesis by simp
  qed
qed

lemma join_with_no_dollar:
  "\<forall>h \<in> set hs. CHR ''$'' \<notin> set h \<Longrightarrow> CHR ''$'' \<notin> set sep \<Longrightarrow>
     CHR ''$'' \<notin> set (join_with sep hs)"
  by (induction sep hs rule: join_with.induct) auto

lemma injectPreloadHints_plain:
  assumes "preloadHints resources \<noteq> []"
    and "find_first ''</head>'' html = Some (preceding, following)"
    and "\<forall>href \<in> set (fst resources) \<union> set (snd resources). CHR ''$'' \<notin> set href"
  shows "injectPreloadHints resources html =
           preceding @ ''\<newline>'' @ join_with ''\<newline>'' (preloadHints resources) @
           ''\<newline>  '' @ ''</head>'' @ following"
proof -
  have "\<forall>h \<in> set (preloadHints resources). CHR ''$'' \<notin> set h"
    using assms(3) by (auto simp: preloadHints_def css_hint_def js_hint_def)
  then have "CHR ''$'' \<notin> set (join_with ''\<newline>'' (preloadHints resources))"
    by (rule join_with_no_dollar) simp
  then have "CHR ''$'' \<notin> set (''\<newline>'' @ join_with ''\<newline>'' (preloadHints resources) @ ''\<newline>  </head>'')"
    by simp
  then show ?thesis
    using assms(1,2)
    by (simp add: injectPreloadHints_def js_replace_def getSubstitution_plain del: set_append)
qed

section \<open>The claims\<close>

lemmas example_simps =
  example_config_def clash_config_def example_settings_def settings.defs Config.defs

lemmas path_simps =
  outputPath_def relativePath_def outputFile_def themeSuffix_def localeSuffix_def
  DIST_DIR_def path_join_def normalize_def

text \<open>
  \<^bold>\<open>C1\<close> (as amended). For every well-formed configuration (routes that are \<open>/\<close> or
  slash-separated non-empty segments other than \<open>.\<close> and \<open>..\<close>, locale and theme codes
  other than the defaults without dot and slash, no non-default theme equal to a
  non-default locale), no two distinct tasks of the route, locale and theme cross-product
  have the same output path; and for every configuration and every route, well formed or
  not, the default locale with the default theme gives the unsuffixed path, the base
  followed by \<open>.html\<close>.
\<close>

theorem outputPath_injective:
  "(wf_config config \<longrightarrow>
      inj_on (\<lambda>(r, l, t). outputPath root config r l t) (set (tasks config))) \<and>
   outputPath root config r (default_locale config) (default_theme config) =
     path_join (DIST_DIR root) (outputFile r @ ''.html'')"
proof (intro conjI impI)
  assume wf: "wf_config config"
  show "inj_on (\<lambda>(r, l, t). outputPath root config r l t) (set (tasks config))"
    unfolding inj_on_def set_tasks
    using relativePath_inject [OF wf] by auto
next
  show "outputPath root config r (default_locale config) (default_theme config) =
          path_join (DIST_DIR root) (outputFile r @ ''.html'')"
    by (simp add: outputPath_def relativePath_def themeSuffix_def localeSuffix_def)
qed

theorem outputPath_injective_witness:
  "wf_config example_config \<and>
   inj_on (\<lambda>(r, l, t). outputPath ''/srv/app'' example_config r l t)
     (set (tasks example_config)) \<and>
   outputPath ''/srv/app'' example_config ''/about''
     (default_locale example_config) (default_theme example_config) =
   ''/srv/app/dist/about/index.html''"
proof -
  have wf: "wf_config example_config"
    by (simp add: wf_config_def example_simps plain_code_def plain_segment_def)
  have "path_join (DIST_DIR ''/srv/app'') (outputFile ''/about'' @ ''.html'') =
          ''/srv/app/dist/about/index.html''"
    by (simp add: path_simps)
  with outputPath_injective [of example_config "''/srv/app''" "''/about''"] wf show ?thesis
    by simp
qed

text \<open>
  The claim as stated, for every configuration with non-empty locale and theme lists,
  fails: with the locales \<open>tr\<close> (default) and \<open>en\<close> and the themes \<open>light\<close> (default) and
  \<open>en\<close>, the tasks \<open>(/, en, light)\<close> and \<open>(/, tr, en)\<close> are distinct and both are written to
  \<open>index.en.html\<close>.
\<close>

theorem outputPath_collision:
  "locales clash_config \<noteq> [] \<and> themes clash_config \<noteq> [] \<and>
   (''/'', ''en'', ''light'') \<in> set (tasks clash_config) \<and>
   (''/'', ''tr'', ''en'') \<in> set (tasks clash_config) \<and>
   (''/'', ''en'', ''light'') \<noteq> (''/'', ''tr'', ''en'') \<and>
   outputPath ''/srv/app'' clash_config ''/'' ''en'' ''light'' = ''/srv/app/dist/index.en.html'' \<and>
   outputPath ''/srv/app'' clash_config ''/'' ''tr'' ''en'' = ''/srv/app/dist/index.en.html''"
  by (simp add: set_tasks example_simps path_simps)

text \<open>
  \<^bold>\<open>C2.\<close> For every route, locale and theme, each step of the derivation in
  \<^verbatim>\<open>prerenderRoute\<close> is the one the specification gives: the base segment is \<open>index\<close>
  for the route \<open>/\<close> and otherwise the route without its leading slash followed by
  \<open>/index\<close>; the theme suffix is empty for the default theme and \<open>.theme\<close> otherwise; the
  locale suffix is empty for the default locale and \<open>.locale\<close> otherwise; the relative
  path is base, theme suffix, locale suffix and \<open>.html\<close> in this order; and the output
  path is the relative path joined under the output root, which for a well-formed root
  other than \<open>/\<close>, a well-formed route and plain codes is the root, \<open>/dist/\<close> and the
  relative path.
\<close>

theorem outputPath_refines_spec:
  "outputFile r = spec_base r \<and>
   themeSuffix config t = spec_suffix t (default_theme config) \<and>
   localeSuffix config l = spec_suffix l (default_locale config) \<and>
   relativePath config r l t =
     spec_relative_path (default_locale config) (default_theme config) r l t \<and>
   outputPath root config r l t =
     spec_output_path root (default_locale config) (default_theme config) r l t \<and>
   (wf_route root \<and> root \<noteq> ''/'' \<and> wf_route r \<and>
    (t = default_theme config \<or> plain_code t) \<and> (l = default_locale config \<or> plain_code l) \<longrightarrow>
      outputPath root config r l t =
        root @ ''/dist/'' @
        spec_relative_path (default_locale config) (default_theme config) r l t)"
proof -
  have base: "outputFile r = spec_base r"
    by (cases r) (auto simp: outputFile_def spec_base_def)
  have ts: "themeSuffix config t = spec_suffix t (default_theme config)"
    by (simp add: themeSuffix_def spec_suffix_def)
  have ls: "localeSuffix config l = spec_suffix l (default_locale config)"
    by (simp add: localeSuffix_def spec_suffix_def)
  have rel: "relativePath config r l t =
      spec_relative_path (default_locale config) (default_theme config) r l t"
    by (simp add: relativePath_def spec_relative_path_def base ts ls)
  have out: "outputPath root config r l t =
      spec_output_path root (default_locale config) (default_theme config) r l t"
    by (simp only: outputPath_def spec_output_path_def rel)
  have under: "wf_route root \<and> root \<noteq> ''/'' \<and> wf_route r \<and>
    (t = default_theme config \<or> plain_code t) \<and> (l = default_locale config \<or> plain_code l) \<longrightarrow>
      outputPath root config r l t =
        root @ ''/dist/'' @
        spec_relative_path (default_locale config) (default_theme config) r l t"
    using outputPath_under_root [of root r t config l] by (simp only: rel) blast
  from base ts ls rel out under show ?thesis by (intro conjI)
qed

theorem outputPath_refines_spec_witness:
  "outputFile ''/about'' = ''about/index'' \<and>
   relativePath example_config ''/about'' ''en'' ''dark'' = ''about/index.dark.en.html'' \<and>
   spec_relative_path ''tr'' ''light'' ''/about'' ''en'' ''dark'' = ''about/index.dark.en.html'' \<and>
   outputPath ''/srv/app'' example_config ''/about'' ''en'' ''dark'' =
     ''/srv/app/dist/about/index.dark.en.html''"
proof -
  have d: "default_locale example_config = ''tr''" "default_theme example_config = ''light''"
    by (simp_all add: example_simps)
  have s: "spec_relative_path ''tr'' ''light'' ''/about'' ''en'' ''dark'' = ''about/index.dark.en.html''"
    "spec_base ''/about'' = ''about/index''"
    by (simp_all add: spec_relative_path_def spec_base_def spec_suffix_def)
  have h: "wf_route ''/srv/app''" "''/srv/app'' \<noteq> ''/''" "wf_route ''/about''"
    "plain_code ''dark''" "plain_code ''en''"
    by (simp_all add: plain_segment_def plain_code_def)
  note t = outputPath_refines_spec [of "''/about''" example_config "''dark''" "''en''" "''/srv/app''",
      unfolded d s]
  have base: "outputFile ''/about'' = ''about/index''"
    using t by (rule conjunct1)
  have rel: "relativePath example_config ''/about'' ''en'' ''dark'' = ''about/index.dark.en.html''"
    using t by (elim conjE)
  have "outputPath ''/srv/app'' example_config ''/about'' ''en'' ''dark'' =
          ''/srv/app'' @ ''/dist/'' @ ''about/index.dark.en.html''"
    using h by (intro t [THEN conjunct2, THEN conjunct2, THEN conjunct2, THEN conjunct2,
          THEN conjunct2, THEN mp]) simp
  with base rel s(1) show ?thesis by simp
qed

text \<open>
  \<^bold>\<open>C5.\<close> Whenever the document captured for a task is shorter than the minimum of
  1000 code units, \<^verbatim>\<open>prerenderRoute\<close> reports failure and leaves the files as they
  were: nothing is written for the task.
\<close>

theorem short_document_not_written:
  assumes "page_content page = Inr html" and "length html < 1000"
  shows "prerenderRoute root page route locale theme config files = (False, files)"
  using assms by (simp add: prerenderRoute_def split: option.splits)

theorem short_document_not_written_witness:
  "page_content blank_page = Inr ''<html><head></head><body></body></html>'' \<and>
   length ''<html><head></head><body></body></html>'' < 1000 \<and>
   prerenderRoute ''/srv/app'' blank_page ''/'' ''tr'' ''light'' example_config Map.empty =
     (False, Map.empty)"
proof -
  have c: "page_content blank_page = Inr ''<html><head></head><body></body></html>''"
    by (simp add: blank_page_def)
  have l: "length ''<html><head></head><body></body></html>'' < 1000"
    by simp
  from short_document_not_written [OF c l] c l show ?thesis
    by blast
qed

text \<open>
  \<^bold>\<open>C7\<close> (as amended). For the root \<open>/\<close> and for every route with at least one
  non-empty segment, in particular for every well-formed route, priority and change
  frequency are the table's function of the depth: the root gets 1.0 and weekly, depth 1
  gets 0.8 and monthly, depth 2 gets 0.6 and monthly, depth 3 and more gets 0.4 and
  yearly. The depth is the number of non-empty segments.
\<close>

theorem sitemap_depth_table:
  "(route = ''/'' \<longrightarrow>
      calculatePriority route = ''1.0'' \<and> calculateChangeFreq route = ''weekly'') \<and>
   (depth route = 1 \<longrightarrow>
      calculatePriority route = ''0.8'' \<and> calculateChangeFreq route = ''monthly'') \<and>
   (depth route = 2 \<longrightarrow>
      calculatePriority route = ''0.6'' \<and> calculateChangeFreq route = ''monthly'') \<and>
   (3 \<le> depth route \<longrightarrow>
      calculatePriority route = ''0.4'' \<and> calculateChangeFreq route = ''yearly'') \<and>
   (route = ''/'' \<or> 0 < depth route \<longrightarrow>
      (calculatePriority route, calculateChangeFreq route) = depth_table (depth route)) \<and>
   (wf_route route \<longrightarrow>
      (calculatePriority route, calculateChangeFreq route) = depth_table (depth route))"
proof (intro conjI impI)
  assume "route = ''/''"
  then show "calculatePriority route = ''1.0''" "calculateChangeFreq route = ''weekly''"
    by (simp_all only: calculatePriority_def calculateChangeFreq_def simp_thms if_True)
next
  assume d: "depth route = 1"
  then have "0 < depth route" by simp
  with d show "calculatePriority route = ''0.8''" "calculateChangeFreq route = ''monthly''"
    by (simp_all only: priority_by_depth changefreq_by_depth) simp_all
next
  assume d: "depth route = 2"
  then have "0 < depth route" by simp
  with d show "calculatePriority route = ''0.6''" "calculateChangeFreq route = ''monthly''"
    by (simp_all only: priority_by_depth changefreq_by_depth) simp_all
next
  assume d: "3 \<le> depth route"
  then have "0 < depth route" by simp
  with d show "calculatePriority route = ''0.4''" "calculateChangeFreq route = ''yearly''"
    by (simp_all only: priority_by_depth changefreq_by_depth) simp_all
next
  assume "route = ''/'' \<or> 0 < depth route"
  then show "(calculatePriority route, calculateChangeFreq route) = depth_table (depth route)"
    by (rule table_by_depth)
next
  assume "wf_route route"
  then have "route = ''/'' \<or> 0 < depth route"
    using wf_route_depth [of route] by (cases "route = ''/''") simp_all
  then show "(calculatePriority route, calculateChangeFreq route) = depth_table (depth route)"
    by (rule table_by_depth)
qed

theorem sitemap_depth_table_witness:
  "depth ''/about'' = 1 \<and> depth ''/services/web'' = 2 \<and> 3 \<le> depth ''/a/b/c'' \<and>
   calculatePriority ''/'' = ''1.0'' \<and> calculateChangeFreq ''/'' = ''weekly'' \<and>
   calculatePriority ''/about'' = ''0.8'' \<and> calculateChangeFreq ''/about'' = ''monthly'' \<and>
   calculatePriority ''/services/web'' = ''0.6'' \<and>
   calculateChangeFreq ''/services/web'' = ''monthly'' \<and>
   calculatePriority ''/a/b/c'' = ''0.4'' \<and> calculateChangeFreq ''/a/b/c'' = ''yearly''"
proof -
  have d: "depth ''/about'' = 1" "depth ''/services/web'' = 2" "3 \<le> depth ''/a/b/c''"
    by (simp_all add: depth_def)
  note t = sitemap_depth_table [of "''/''"] sitemap_depth_table [of "''/about''"]
    sitemap_depth_table [of "''/services/web''"] sitemap_depth_table [of "''/a/b/c''"]
  from d t show ?thesis by simp
qed

text \<open>
  The claim as stated, for every route, fails: \<open>//\<close> and the empty string have the
  depth 0 of the root and do not get its values, so the two values are no function of the
  depth; they get 0.4 and monthly, a pair that is in no row of the table.
\<close>

theorem depth_zero_not_root:
  "depth ''//'' = 0 \<and> depth ''/'' = 0 \<and>
   calculatePriority ''/'' = ''1.0'' \<and> calculateChangeFreq ''/'' = ''weekly'' \<and>
   calculatePriority ''//'' = ''0.4'' \<and> calculateChangeFreq ''//'' = ''monthly'' \<and>
   depth [] = 0 \<and> calculatePriority [] = ''0.4'' \<and> calculateChangeFreq [] = ''monthly''"
proof -
  have d: "depth ''//'' = 0" "depth ''/'' = 0" "depth [] = 0"
    by (simp_all add: depth_def)
  then show ?thesis
    by (simp add: calculatePriority_def calculateChangeFreq_def)
qed

text \<open>
  \<^bold>\<open>C4\<close> (as amended). \<^verbatim>\<open>loadConfig\<close> fails exactly when one of the two sources
  cannot be read or parsed or the route document is empty. Two complete documents give
  the settings as read together with the route list, which is the document's
  \<^verbatim>\<open>routes\<close> entry, or the empty list when the entry is absent; an empty settings
  document gives an object that holds the routes alone.
\<close>

theorem loadConfig_outcomes:
  "((\<exists>e. loadConfig cs rs = Inl e) \<longleftrightarrow>
      (\<exists>e. cs = Inl e) \<or> (\<exists>e. rs = Inl e) \<or> rs = Inr YUndefined) \<and>
   (\<forall>s d. cs = Inr (YObject s) \<and> rs = Inr (YObject d) \<longrightarrow>
      (\<exists>config. loadConfig cs rs = Inr (Complete config) \<and> settings.truncate config = s \<and>
         routes config = (case routes_key d of None \<Rightarrow> [] | Some xs \<Rightarrow> xs))) \<and>
   (\<forall>d. cs = Inr YUndefined \<and> rs = Inr (YObject d) \<longrightarrow>
      loadConfig cs rs = Inr (OnlyRoutes (case routes_key d of None \<Rightarrow> [] | Some xs \<Rightarrow> xs)))"
  by (auto simp: loadConfig_def Let_def settings.defs Config.defs split: sum.splits yaml_doc.splits)

theorem loadConfig_outcomes_witness:
  "loadConfig (Inl (ENOENT ''config.yaml'')) (Inr (YObject \<lparr>routes_key = Some [''/'']\<rparr>)) =
     Inl (ENOENT ''config.yaml'') \<and>
   loadConfig (Inr (YObject example_settings)) (Inr YUndefined) = Inl TypeError \<and>
   (\<exists>config. loadConfig (Inr (YObject example_settings)) (Inr (YObject \<lparr>routes_key = None\<rparr>)) =
      Inr (Complete config) \<and> settings.truncate config = example_settings \<and> routes config = [])"
  using loadConfig_outcomes [of "Inr (YObject example_settings)" "Inr (YObject \<lparr>routes_key = None\<rparr>)"]
  by (simp add: loadConfig_def Let_def)

text \<open>
  The claim as stated fails: a route file without a \<^verbatim>\<open>routes\<close> entry is not
  reported, the configuration is completed with the empty route list; and an empty
  settings file gives a partial configuration with the routes alone.
\<close>

theorem loadConfig_default_filled:
  "loadConfig (Inr (YObject example_settings)) (Inr (YObject \<lparr>routes_key = None\<rparr>)) =
     Inr (Complete (settings.extend example_settings (Config.fields []))) \<and>
   routes (settings.extend example_settings (Config.fields [])) = [] \<and>
   loadConfig (Inr YUndefined) (Inr (YObject \<lparr>routes_key = Some [''/'']\<rparr>)) =
     Inr (OnlyRoutes [''/''])"
  by (simp add: loadConfig_def Let_def settings.defs Config.defs)

text \<open>
  \<^bold>\<open>C3\<close> (as amended). The process exits with 0 exactly when the pipeline runs to its
  end without a fatal error (the configuration loads completely, \<^verbatim>\<open>dist/\<close> exists, the
  preview server starts, the browser is launched, its context is opened, the limiter is
  created and the browser is closed) and every task of the route, locale and theme
  cross-product succeeds; in every other case it exits with 1, in particular when
  loading the configuration fails and when the preview server does not start.
\<close>

theorem exit_code_zero_iff:
  "(exit_code root w files = 0 \<longleftrightarrow>
      (\<exists>config.
         loadConfig (config_yaml w) (routes_yaml w) = Inr (Complete config) \<and>
         dist_exists w \<and> server_start w = None \<and>
         browser_launch w (launchOptions config) = None \<and> browser_newContext w = None \<and>
         p_limit w (concurrency_limit config) = None \<and> browser_close w = None \<and>
         (\<forall>t \<in> set (tasks config). task_outcome root w config t = Inr True))) \<and>
   (exit_code root w files \<noteq> 0 \<longrightarrow> exit_code root w files = 1) \<and>
   ((\<exists>e. loadConfig (config_yaml w) (routes_yaml w) = Inl e) \<longrightarrow> exit_code root w files = 1) \<and>
   ((\<exists>e. server_start w = Some e) \<longrightarrow> exit_code root w files = 1)"
proof (intro conjI)
  show "exit_code root w files = 0 \<longleftrightarrow>
      (\<exists>config.
         loadConfig (config_yaml w) (routes_yaml w) = Inr (Complete config) \<and>
         dist_exists w \<and> server_start w = None \<and>
         browser_launch w (launchOptions config) = None \<and> browser_newContext w = None \<and>
         p_limit w (concurrency_limit config) = None \<and> browser_close w = None \<and>
         (\<forall>t \<in> set (tasks config). task_outcome root w config t = Inr True))"
    using main_iff [of root w files]
    by (simp add: exit_code_def pipeline_ready_def browser_ready_def conj_assoc)
  show "exit_code root w files \<noteq> 0 \<longrightarrow> exit_code root w files = 1"
    by (simp add: exit_code_def)
  show "(\<exists>e. loadConfig (config_yaml w) (routes_yaml w) = Inl e) \<longrightarrow> exit_code root w files = 1"
    by (auto simp: exit_code_def main_def)
  show "(\<exists>e. server_start w = Some e) \<longrightarrow> exit_code root w files = 1"
  proof
    assume "\<exists>e. server_start w = Some e"
    then obtain e where "server_start w = Some e" ..
    then have "\<not> main root w files"
      by (cases "loadConfig (config_yaml w) (routes_yaml w)")
         (simp_all add: main_def split: loaded_config.splits)
    then show "exit_code root w files = 1"
      by (simp add: exit_code_def)
  qed
qed

theorem exit_code_zero_iff_witness:
  "loadConfig (config_yaml calm_world) (routes_yaml calm_world) = Inr (Complete example_config) \<and>
   list_all (\<lambda>t. task_outcome ''/srv/app'' calm_world example_config t = Inr True)
     (tasks example_config) \<and>
   exit_code ''/srv/app'' calm_world Map.empty = 0 \<and>
   server_start (calm_world\<lparr>server_start := Some Rejected\<rparr>) = Some Rejected \<and>
   exit_code ''/srv/app'' (calm_world\<lparr>server_start := Some Rejected\<rparr>) Map.empty = 1"
proof -
  have cfg: "loadConfig (config_yaml calm_world) (routes_yaml calm_world) =
               Inr (Complete example_config)"
    by (simp add: calm_world_def loadConfig_def Let_def example_config_def)
  have env: "dist_exists calm_world" "server_start calm_world = None"
    "browser_launch calm_world (launchOptions example_config) = None"
    "browser_newContext calm_world = None"
    "p_limit calm_world (concurrency_limit example_config) = None"
    "browser_close calm_world = None"
    by (simp_all add: calm_world_def pLimit_def concurrency_limit_def example_simps)
  have all: "\<forall>t \<in> set (tasks example_config).
      task_outcome ''/srv/app'' calm_world example_config t = Inr True"
    by (simp add: calm_world_outcome)
  have "\<exists>config.
         loadConfig (config_yaml calm_world) (routes_yaml calm_world) = Inr (Complete config) \<and>
         dist_exists calm_world \<and> server_start calm_world = None \<and>
         browser_launch calm_world (launchOptions config) = None \<and>
         browser_newContext calm_world = None \<and>
         p_limit calm_world (concurrency_limit config) = None \<and>
         browser_close calm_world = None \<and>
         (\<forall>t \<in> set (tasks config). task_outcome ''/srv/app'' calm_world config t = Inr True)"
    using cfg env all by (intro exI [of _ example_config] conjI)
  then have zero: "exit_code ''/srv/app'' calm_world Map.empty = 0"
    by (rule exit_code_zero_iff [THEN conjunct1, THEN iffD2])
  have stopped: "server_start (calm_world\<lparr>server_start := Some Rejected\<rparr>) = Some Rejected"
    by simp
  then have "\<exists>e. server_start (calm_world\<lparr>server_start := Some Rejected\<rparr>) = Some e" ..
  then have one: "exit_code ''/srv/app'' (calm_world\<lparr>server_start := Some Rejected\<rparr>) Map.empty = 1"
    by (rule exit_code_zero_iff [THEN conjunct2, THEN conjunct2, THEN conjunct2, THEN mp])
  from all have "list_all (\<lambda>t. task_outcome ''/srv/app'' calm_world example_config t = Inr True)
     (tasks example_config)"
    by (simp only: list_all_iff)
  with cfg zero stopped one show ?thesis by (intro conjI)
qed

text \<open>
  The claim as stated fails: when every one of the eight tasks of the example has
  succeeded and closing the browser is rejected, \<^verbatim>\<open>prerenderAll\<close> throws after the
  tasks and the process exits with 1.
\<close>

theorem exit_code_one_all_tasks_succeeded:
  "loadConfig (config_yaml closing_world) (routes_yaml closing_world) =
     Inr (Complete example_config) \<and>
   dist_exists closing_world \<and> server_start closing_world = None \<and>
   tasks example_config \<noteq> [] \<and>
   list_all (\<lambda>t. task_outcome ''/srv/app'' closing_world example_config t = Inr True)
     (tasks example_config) \<and>
   exit_code ''/srv/app'' closing_world Map.empty = 1"
proof -
  have cfg: "loadConfig (config_yaml closing_world) (routes_yaml closing_world) =
               Inr (Complete example_config)"
    by (simp add: closing_world_def calm_world_def loadConfig_def Let_def example_config_def)
  have env: "dist_exists closing_world" "server_start closing_world = None"
    by (simp_all add: closing_world_def calm_world_def)
  have ne: "tasks example_config \<noteq> []"
    by (simp add: tasks_def example_simps)
  have all: "list_all (\<lambda>t. task_outcome ''/srv/app'' closing_world example_config t = Inr True)
     (tasks example_config)"
    by (simp add: list_all_iff closing_world_outcome)
  have "\<not> main ''/srv/app'' closing_world Map.empty"
    by (simp add: main_iff pipeline_ready_def browser_ready_def closing_world_def calm_world_def)
  then have one: "exit_code ''/srv/app'' closing_world Map.empty = 1"
    by (simp add: exit_code_def)
  from cfg env ne all one show ?thesis by (intro conjI)
qed

text \<open>
  \<^bold>\<open>C10.\<close> When \<^verbatim>\<open>playwright.headless\<close> is omitted, \<^verbatim>\<open>prerenderAll\<close> launches the
  browser with \<^verbatim>\<open>headless = false\<close>: a browser that refuses exactly the launches
  that are not headless makes it fail with that refusal. When
  \<^verbatim>\<open>playwright.concurrency\<close> is omitted or 0, \<^verbatim>\<open>prerenderAll\<close> creates the limiter
  with the ceiling 5: a limiter that refuses exactly the ceiling 5 makes it fail with
  that refusal. The missing field does not make the pipeline fail: when the ceiling 5 is
  accepted and the browser calls and the page calls of the tasks succeed,
  \<^verbatim>\<open>prerenderAll\<close> returns the number of tasks that succeeded.
\<close>

theorem playwright_defaults:
  "((playwright config = None \<or> (\<exists>p. playwright config = Some p \<and> headless p = None)) \<longrightarrow>
      launch_headless (launchOptions config) = False \<and>
      prerenderAll root
        (w\<lparr>browser_launch := (\<lambda>opts. if launch_headless opts then None else Some e)\<rparr>)
        config files = (Inl e, files)) \<and>
   ((playwright config = None \<or>
     (\<exists>p. playwright config = Some p \<and> (concurrency p = None \<or> concurrency p = Some 0))) \<longrightarrow>
      concurrency_limit config = 5 \<and>
      (browser_launch w (launchOptions config) = None \<and> browser_newContext w = None \<longrightarrow>
         prerenderAll root (w\<lparr>p_limit := (\<lambda>c. if c = 5 then Some e else None)\<rparr>) config files =
           (Inl e, files)) \<and>
      (browser_launch w (launchOptions config) = None \<and> browser_newContext w = None \<and>
       p_limit w 5 = None \<and> browser_close w = None \<and>
       (\<forall>t \<in> set (tasks config). \<exists>b. task_outcome root w config t = Inr b) \<longrightarrow>
       fst (prerenderAll root w config files) =
         Inr (length (filter (\<lambda>t. task_outcome root w config t = Inr True) (tasks config)))))"
proof (intro conjI impI)
  assume "playwright config = None \<or> (\<exists>p. playwright config = Some p \<and> headless p = None)"
  then show h: "launch_headless (launchOptions config) = False"
    by (auto simp: launchOptions_def)
  then show "prerenderAll root
        (w\<lparr>browser_launch := (\<lambda>opts. if launch_headless opts then None else Some e)\<rparr>)
        config files = (Inl e, files)"
    by (simp add: prerenderAll_def)
next
  assume "playwright config = None \<or>
     (\<exists>p. playwright config = Some p \<and> (concurrency p = None \<or> concurrency p = Some 0))"
  then show c: "concurrency_limit config = 5"
    by (auto simp: concurrency_limit_def)
  {
    assume "browser_launch w (launchOptions config) = None \<and> browser_newContext w = None"
    with c show "prerenderAll root (w\<lparr>p_limit := (\<lambda>c. if c = 5 then Some e else None)\<rparr>) config files =
           (Inl e, files)"
      by (simp add: prerenderAll_def)
  }
  {
    assume a: "browser_launch w (launchOptions config) = None \<and> browser_newContext w = None \<and>
       p_limit w 5 = None \<and> browser_close w = None \<and>
       (\<forall>t \<in> set (tasks config). \<exists>b. task_outcome root w config t = Inr b)"
    have "length (filter (\<lambda>r. r = Inr True) (map (task_outcome root w config) (tasks config))) =
          length (filter (\<lambda>t. task_outcome root w config t = Inr True) (tasks config))"
      by (simp add: filter_map comp_def)
    with a c show "fst (prerenderAll root w config files) =
         Inr (length (filter (\<lambda>t. task_outcome root w config t = Inr True) (tasks config)))"
      by (simp add: prerenderAll_result browser_ready_def)
  }
qed

theorem playwright_defaults_witness:
  "playwright bare_config = None \<and>
   launch_headless (launchOptions bare_config) = False \<and>
   prerenderAll ''/srv/app''
     (calm_world\<lparr>browser_launch := (\<lambda>opts. if launch_headless opts then None else Some Rejected)\<rparr>)
     bare_config Map.empty = (Inl Rejected, Map.empty) \<and>
   concurrency_limit bare_config = 5 \<and>
   prerenderAll ''/srv/app'' (calm_world\<lparr>p_limit := (\<lambda>c. if c = 5 then Some Rejected else None)\<rparr>)
     bare_config Map.empty = (Inl Rejected, Map.empty) \<and>
   fst (prerenderAll ''/srv/app'' calm_world bare_config Map.empty) = Inr 8"
proof -
  have a: "playwright bare_config = None"
    by (simp add: bare_config_def)
  have b: "browser_launch calm_world (launchOptions bare_config) = None"
    "browser_newContext calm_world = None" "p_limit calm_world 5 = None"
    "browser_close calm_world = None"
    by (simp_all add: calm_world_def pLimit_def)
  have c: "\<forall>t \<in> set (tasks bare_config).
      \<exists>b. task_outcome ''/srv/app'' calm_world bare_config t = Inr b"
    using calm_world_outcome by blast
  have n: "length (filter (\<lambda>t. task_outcome ''/srv/app'' calm_world bare_config t = Inr True)
             (tasks bare_config)) = 8"
    by (simp add: calm_world_outcome tasks_def bare_config_def example_simps)
  note t = playwright_defaults [where config = bare_config and root = "''/srv/app''"
      and w = calm_world and e = Rejected and files = Map.empty]
  from t a have h: "launch_headless (launchOptions bare_config) = False \<and>
      prerenderAll ''/srv/app''
        (calm_world\<lparr>browser_launch := (\<lambda>opts. if launch_headless opts then None else Some Rejected)\<rparr>)
        bare_config Map.empty = (Inl Rejected, Map.empty)"
    by (intro t [THEN conjunct1, THEN mp]) simp
  from t a have k: "concurrency_limit bare_config = 5 \<and>
      (browser_launch calm_world (launchOptions bare_config) = None \<and>
       browser_newContext calm_world = None \<longrightarrow>
         prerenderAll ''/srv/app'' (calm_world\<lparr>p_limit := (\<lambda>c. if c = 5 then Some Rejected else None)\<rparr>)
           bare_config Map.empty = (Inl Rejected, Map.empty)) \<and>
      (browser_launch calm_world (launchOptions bare_config) = None \<and>
       browser_newContext calm_world = None \<and>
       p_limit calm_world 5 = None \<and> browser_close calm_world = None \<and>
       (\<forall>t \<in> set (tasks bare_config).
          \<exists>b. task_outcome ''/srv/app'' calm_world bare_config t = Inr b) \<longrightarrow>
       fst (prerenderAll ''/srv/app'' calm_world bare_config Map.empty) =
         Inr (length (filter (\<lambda>t. task_outcome ''/srv/app'' calm_world bare_config t = Inr True)
                (tasks bare_config))))"
    by (intro t [THEN conjunct2, THEN mp]) simp
  from k b have p: "prerenderAll ''/srv/app''
      (calm_world\<lparr>p_limit := (\<lambda>c. if c = 5 then Some Rejected else None)\<rparr>)
      bare_config Map.empty = (Inl Rejected, Map.empty)"
    by (elim conjE) (erule mp, intro conjI)
  from k b c have q: "fst (prerenderAll ''/srv/app'' calm_world bare_config Map.empty) =
      Inr (length (filter (\<lambda>t. task_outcome ''/srv/app'' calm_world bare_config t = Inr True)
             (tasks bare_config)))"
    by (elim conjE) (erule mp, intro conjI)
  from a h k p q n show ?thesis by simp
qed

text \<open>
  \<^bold>\<open>C6\<close> (as amended). \<^verbatim>\<open>generateSitemap\<close> writes \<^verbatim>\<open>sitemap.xml\<close> under the
  output root: the XML declaration, the opening \<open>urlset\<close> tag, one \<open>url\<close> entry for each
  element of the route list that is not in the exclusion list, in list order, and the
  closing tag. The entry of a route holds the production URL followed by the route, the
  date, the change frequency and the priority. So an excluded route has no entry, and
  every other route has as many entries as the route list names it: exactly one when it
  is listed once.
\<close>

theorem sitemap_entries:
  "generateSitemap root config today files (path_join (DIST_DIR root) ''sitemap.xml'') =
     Some (join_with ''\<newline>''
       ([xml_declaration, urlset_open] @
        map (url_entry (replace_trailing_slash (production_url config)) today)
          (filter (\<lambda>route. route \<notin> set (excluded config)) (routes config)) @
        [''</urlset>'', []])) \<and>
   url_entry (replace_trailing_slash (production_url config)) today r =
     ''  <url>\<newline>    <loc>'' @ replace_trailing_slash (production_url config) @ r @
     ''</loc>\<newline>    <lastmod>'' @ today @ ''</lastmod>\<newline>    <changefreq>'' @
     calculateChangeFreq r @ ''</changefreq>\<newline>    <priority>'' @ calculatePriority r @
     ''</priority>\<newline>  </url>'' \<and>
   count_list
     (map (url_entry (replace_trailing_slash (production_url config)) today)
        (filter (\<lambda>route. route \<notin> set (excluded config)) (routes config)))
     (url_entry (replace_trailing_slash (production_url config)) today r) =
     (if r \<in> set (excluded config) then 0 else count_list (routes config) r) \<and>
   (count_list (routes config) r = 1 \<and> r \<notin> set (excluded config) \<longrightarrow>
      count_list
        (map (url_entry (replace_trailing_slash (production_url config)) today)
           (filter (\<lambda>route. route \<notin> set (excluded config)) (routes config)))
        (url_entry (replace_trailing_slash (production_url config)) today r) = 1)"
proof -
  let ?f = "url_entry (replace_trailing_slash (production_url config)) today"
  let ?kept = "filter (\<lambda>route. route \<notin> set (excluded config)) (routes config)"
  have written: "generateSitemap root config today files (path_join (DIST_DIR root) ''sitemap.xml'') =
     Some (join_with ''\<newline>'' ([xml_declaration, urlset_open] @ map ?f ?kept @ [''</urlset>'', []]))"
    by (simp add: generateSitemap_def sitemap_xml_def sitemap_urls_def)
  have shape: "?f r =
     ''  <url>\<newline>    <loc>'' @ replace_trailing_slash (production_url config) @ r @
     ''</loc>\<newline>    <lastmod>'' @ today @ ''</lastmod>\<newline>    <changefreq>'' @
     calculateChangeFreq r @ ''</changefreq>\<newline>    <priority>'' @ calculatePriority r @
     ''</priority>\<newline>  </url>''"
    by (simp add: url_entry_shape)
  have "inj ?f"
    by (rule injI) (rule url_entry_inject)
  then have count: "count_list (map ?f ?kept) (?f r) =
     (if r \<in> set (excluded config) then 0 else count_list (routes config) r)"
    by (simp add: count_list_map_conv count_list_filter)
  then have once: "count_list (routes config) r = 1 \<and> r \<notin> set (excluded config) \<longrightarrow>
      count_list (map ?f ?kept) (?f r) = 1"
    by simp
  from written shape count once show ?thesis by (intro conjI)
qed

theorem sitemap_entries_witness:
  "generateSitemap ''/srv/app'' example_config ''2025-01-01'' Map.empty ''/srv/app/dist/sitemap.xml'' =
     Some (join_with ''\<newline>''
       [xml_declaration, urlset_open,
        ''  <url>\<newline>    <loc>https://www.artek.tc/</loc>\<newline>    <lastmod>2025-01-01</lastmod>\<newline>    <changefreq>weekly</changefreq>\<newline>    <priority>1.0</priority>\<newline>  </url>'',
        ''</urlset>'', []]) \<and>
   count_list (routes example_config) ''/'' = 1 \<and> ''/'' \<notin> set (excluded example_config) \<and>
   ''/about'' \<in> set (excluded example_config) \<and>
   count_list (sitemap_urls example_config ''2025-01-01'')
     (url_entry ''https://www.artek.tc'' ''2025-01-01'' ''/'') = 1 \<and>
   count_list (sitemap_urls example_config ''2025-01-01'')
     (url_entry ''https://www.artek.tc'' ''2025-01-01'' ''/about'') = 0"
proof -
  have p: "replace_trailing_slash (production_url example_config) = ''https://www.artek.tc''"
    by (simp add: replace_trailing_slash_def example_simps)
  have path: "path_join (DIST_DIR ''/srv/app'') ''sitemap.xml'' = ''/srv/app/dist/sitemap.xml''"
    by (simp add: DIST_DIR_def path_join_def normalize_def)
  have kept: "filter (\<lambda>route. route \<notin> set (excluded example_config)) (routes example_config) = [''/'']"
    by (simp add: excluded_def example_simps)
  have h: "count_list (routes example_config) ''/'' = 1" "''/'' \<notin> set (excluded example_config)"
    "''/about'' \<in> set (excluded example_config)"
    by (simp_all add: excluded_def example_simps)
  have v: "calculateChangeFreq ''/'' = ''weekly''" "calculatePriority ''/'' = ''1.0''"
    by (simp_all add: calculateChangeFreq_def calculatePriority_def)
  have u: "sitemap_urls example_config ''2025-01-01'' =
      map (url_entry ''https://www.artek.tc'' ''2025-01-01'') [''/'']"
    by (simp add: sitemap_urls_def p kept)
  note t = sitemap_entries [where config = example_config and today = "''2025-01-01''"
      and root = "''/srv/app''" and files = Map.empty, unfolded p path kept]
  from t [where r = "''/''"] v have w: "generateSitemap ''/srv/app'' example_config ''2025-01-01'' Map.empty
      ''/srv/app/dist/sitemap.xml'' =
     Some (join_with ''\<newline>''
       [xml_declaration, urlset_open,
        ''  <url>\<newline>    <loc>https://www.artek.tc/</loc>\<newline>    <lastmod>2025-01-01</lastmod>\<newline>    <changefreq>weekly</changefreq>\<newline>    <priority>1.0</priority>\<newline>  </url>'',
        ''</urlset>'', []])"
    by simp
  from t [where r = "''/''"] h have c1: "count_list (sitemap_urls example_config ''2025-01-01'')
     (url_entry ''https://www.artek.tc'' ''2025-01-01'' ''/'') = 1"
    unfolding u by (elim conjE) simp
  from t [where r = "''/about''"] h have c0: "count_list (sitemap_urls example_config ''2025-01-01'')
     (url_entry ''https://www.artek.tc'' ''2025-01-01'' ''/about'') = 0"
    unfolding u by (elim conjE) simp
  from w h c1 c0 show ?thesis by (intro conjI)
qed

text \<open>
  The claim as stated fails: a route that the route list names twice and that is not
  excluded is included twice, not exactly once.
\<close>

theorem sitemap_repeated_route:
  "''/about'' \<in> set (routes dup_config) \<and> ''/about'' \<notin> set (excluded dup_config) \<and>
   generateSitemap ''/srv/app'' dup_config ''2025-01-01'' Map.empty ''/srv/app/dist/sitemap.xml'' =
     Some (join_with ''\<newline>''
       [xml_declaration, urlset_open, about_entry, about_entry, ''</urlset>'', []]) \<and>
   url_entry ''https://www.artek.tc'' ''2025-01-01'' ''/about'' = about_entry \<and>
   count_list (sitemap_urls dup_config ''2025-01-01'') about_entry = 2"
proof -
  have p: "replace_trailing_slash (production_url dup_config) = ''https://www.artek.tc''"
    by (simp add: replace_trailing_slash_def dup_config_def example_simps)
  have path: "path_join (DIST_DIR ''/srv/app'') ''sitemap.xml'' = ''/srv/app/dist/sitemap.xml''"
    by (simp add: DIST_DIR_def path_join_def normalize_def)
  have d: "depth ''/about'' = 1" by (simp add: depth_def)
  have e: "url_entry ''https://www.artek.tc'' ''2025-01-01'' ''/about'' = about_entry"
    by (simp add: url_entry_def about_entry_def calculateChangeFreq_def calculatePriority_def d)
  have u: "sitemap_urls dup_config ''2025-01-01'' = [about_entry, about_entry]"
    unfolding sitemap_urls_def p
    by (simp add: e excluded_def dup_config_def example_simps)
  have m: "''/about'' \<in> set (routes dup_config)" "''/about'' \<notin> set (excluded dup_config)"
    by (simp_all add: excluded_def dup_config_def example_simps)
  have w: "generateSitemap ''/srv/app'' dup_config ''2025-01-01'' Map.empty ''/srv/app/dist/sitemap.xml'' =
     Some (join_with ''\<newline>''
       [xml_declaration, urlset_open, about_entry, about_entry, ''</urlset>'', []])"
    by (simp add: generateSitemap_def path sitemap_xml_def u)
  have c: "count_list (sitemap_urls dup_config ''2025-01-01'') about_entry = 2"
    by (simp add: u)
  from m w e c show ?thesis by (intro conjI)
qed

text \<open>
  \<^bold>\<open>C8\<close> (a failing input). The replacement text given to \<^verbatim>\<open>replace\<close> is built from
  the captured paths and is not escaped. A render that has captured the stylesheet
  \<^verbatim>\<open>/assets/a$&b.css\<close> succeeds, and the file it writes does not hold the hint
  synthesized for that path in front of the head-closing tag: \<open>$&\<close> has been replaced by
  the matched text, so the link names another resource and a second \<^verbatim>\<open></head>\<close>
  stands inside its \<^verbatim>\<open>href\<close>.
\<close>

theorem preload_hint_dollar_pattern:
  "captured_resources example_config (page_responses dollar_page) = ([''/assets/a$&b.css''], []) \<and>
   prerenderRoute ''/srv/app'' dollar_page ''/'' ''tr'' ''light'' example_config Map.empty =
     (True,
      [''/srv/app/dist/index.html'' \<mapsto>
         ''<html><head>\<newline>'' @
         spliced_hint @
         ''\<newline>  </head><body>'' @ replicate 1000 (CHR ''x'') @ ''</body></html>'']) \<and>
   ''<html><head>\<newline>'' @
     spliced_hint @
     ''\<newline>  </head><body>'' @ replicate 1000 (CHR ''x'') @ ''</body></html>'' \<noteq>
   ''<html><head>\<newline>'' @ css_hint ''/assets/a$&b.css'' @
     ''\<newline>  </head><body>'' @ replicate 1000 (CHR ''x'') @ ''</body></html>''"
proof -
  have res: "captured_resources example_config (page_responses dollar_page) =
               ([''/assets/a$&b.css''], [])"
    by (simp add: captured_resources_def on_response_def dollar_page_def full_page_def
          js_includes_def endsWith_def js_replace_def set_add_def example_simps)
  have inj: "injectPreloadHints ([''/assets/a$&b.css''], [])
               (''<html><head></head><body>'' @ replicate 1000 (CHR ''x'') @ ''</body></html>'') =
             ''<html><head>\<newline>'' @
             spliced_hint @
             ''\<newline>  </head><body>'' @ replicate 1000 (CHR ''x'') @ ''</body></html>''"
    by (simp add: injectPreloadHints_def preloadHints_def css_hint_def js_replace_def spliced_hint_def)
  have path: "outputPath ''/srv/app'' example_config ''/'' ''tr'' ''light'' = ''/srv/app/dist/index.html''"
    by (simp add: path_simps example_simps)
  have run: "prerenderRoute ''/srv/app'' dollar_page ''/'' ''tr'' ''light'' example_config Map.empty =
     (True,
      [''/srv/app/dist/index.html'' \<mapsto>
         ''<html><head>\<newline>'' @
         spliced_hint @
         ''\<newline>  </head><body>'' @ replicate 1000 (CHR ''x'') @ ''</body></html>''])"
    unfolding prerenderRoute_def res path
    by (simp add: dollar_page_def full_page_def inj del: append.simps)
  have ne: "''<html><head>\<newline>'' @
     spliced_hint @
     ''\<newline>  </head><body>'' @ replicate 1000 (CHR ''x'') @ ''</body></html>'' \<noteq>
   ''<html><head>\<newline>'' @ css_hint ''/assets/a$&b.css'' @
     ''\<newline>  </head><body>'' @ replicate 1000 (CHR ''x'') @ ''</body></html>''"
    by (simp add: css_hint_def spliced_hint_def)
  from res run ne show ?thesis by (intro conjI)
qed

theorem preload_hint_dollar_pattern_witness:
  "fst (prerenderRoute ''/srv/app'' dollar_page ''/'' ''tr'' ''light'' example_config Map.empty) \<and>
   snd (prerenderRoute ''/srv/app'' dollar_page ''/'' ''tr'' ''light'' example_config Map.empty)
     ''/srv/app/dist/index.html'' \<noteq>
   Some (''<html><head>\<newline>'' @ css_hint ''/assets/a$&b.css'' @
     ''\<newline>  </head><body>'' @ replicate 1000 (CHR ''x'') @ ''</body></html>'')"
  using preload_hint_dollar_pattern by simp

end
